theory Spec2Isabelle
  imports Main "HOL-Library.Word"
begin

unbundle bit_operations_syntax

section \<open>WinReg: C++ wrappers around the Windows registry API\<close>

text \<open>
  A shallow embedding of \<^verbatim>\<open>WinReg.hpp\<close> and \<^verbatim>\<open>WinReg.cpp\<close>.

  \<^item> \<^verbatim>\<open>DWORD\<close>, \<^verbatim>\<open>LONG\<close>, \<^verbatim>\<open>wchar_t\<close> and \<^verbatim>\<open>BYTE\<close> are machine words; a
    \<^verbatim>\<open>std::wstring\<close> is a list of \<^verbatim>\<open>wchar_t\<close>, a \<^verbatim>\<open>std::vector\<close> a list.
  \<^item> \<^verbatim>\<open>size_t\<close> values are sizes of objects that exist in memory; they are natural
    numbers here, and the one narrowing conversion to \<^verbatim>\<open>DWORD\<close> is explicit
    (\<open>SafeSizeToDwordCast\<close>).
  \<^item> A thrown exception is the \<open>Inl\<close> branch of a sum. The message text of an exception
    is dropped, the native status code of a \<^verbatim>\<open>RegException\<close> is kept.
  \<^item> A read of an element outside its string or vector, by \<^verbatim>\<open>operator[]\<close> or through
    a pointer, is undefined behaviour in C++; the embedding reports it as the error value
    \<open>out_of_bounds\<close> instead of inventing a result. An expression that only forms an
    address to hand to the store (\<^verbatim>\<open>&str[0]\<close>, \<^verbatim>\<open>&data[0]\<close>, \<^verbatim>\<open>data()\<close>) reads no
    element; the store is given the memory image that starts there.
  \<^item> \<^verbatim>\<open>GD_WINREG_ASSERT\<close> expands to nothing in release builds, which are the builds
    embedded here; \<^verbatim>\<open>GD_WINREG_VERIFY\<close> then just evaluates its argument.
  \<^item> The registry calls are the platform's. Their effect is a state that is passed
    explicitly: the entries under each key handle and the trace of the calls made.
\<close>

subsection \<open>Platform types and constants\<close>

type_synonym BYTE = "8 word"
type_synonym wchar_t = "16 word"
type_synonym DWORD = "32 word"
type_synonym LONG = "32 word"
type_synonym HKEY = nat
type_synonym wstring = "wchar_t list"

definition nullptr :: HKEY where
  "nullptr = 0"

text \<open>Value type identifiers and status codes of the platform headers.\<close>

definition REG_NONE :: DWORD where "REG_NONE = 0"
definition REG_SZ :: DWORD where "REG_SZ = 1"
definition REG_EXPAND_SZ :: DWORD where "REG_EXPAND_SZ = 2"
definition REG_BINARY :: DWORD where "REG_BINARY = 3"
definition REG_DWORD :: DWORD where "REG_DWORD = 4"
definition REG_MULTI_SZ :: DWORD where "REG_MULTI_SZ = 7"

definition ERROR_SUCCESS :: LONG where "ERROR_SUCCESS = 0"
definition ERROR_FILE_NOT_FOUND :: LONG where "ERROR_FILE_NOT_FOUND = 2"
definition ERROR_INVALID_HANDLE :: LONG where "ERROR_INVALID_HANDLE = 6"
definition ERROR_MORE_DATA :: LONG where "ERROR_MORE_DATA = 234"

text \<open>The two targets of the conditional compilation on \<^verbatim>\<open>_WIN64\<close>.\<close>

datatype build = Win32 | Win64

datatype error =
    RegException LONG
  | invalid_argument
  | overflow_error
  | out_of_bounds

subsection \<open>Strings, vectors and their memory images\<close>

text \<open>\<^verbatim>\<open>resize\<close> of a string or a vector: truncate, or pad with zero units.\<close>

definition resize :: "'a::zero list \<Rightarrow> nat \<Rightarrow> 'a list" where
  "resize s n = take n s @ replicate (n - length s) 0"

text \<open>\<^verbatim>\<open>c_str()\<close>: the characters followed by the terminating zero unit.\<close>

definition c_str :: "wstring \<Rightarrow> wchar_t list" where
  "c_str s = s @ [0]"

text \<open>
  \<^verbatim>\<open>std::wstring::operator[]\<close>: position \<open>size()\<close> is the terminator, anything beyond
  is outside the object.
\<close>

definition wstring_at :: "wstring \<Rightarrow> nat \<Rightarrow> error + wchar_t" where
  "wstring_at s pos =
     (if pos < length s then Inr (s ! pos)
      else if pos = length s then Inr 0
      else Inl out_of_bounds)"

text \<open>\<^verbatim>\<open>std::vector::operator[]\<close> and a pointer dereference inside a buffer.\<close>

definition vector_at :: "'a list \<Rightarrow> nat \<Rightarrow> error + 'a" where
  "vector_at v pos = (if pos < length v then Inr (v ! pos) else Inl out_of_bounds)"

text \<open>Little-endian memory images of \<^verbatim>\<open>wchar_t\<close> arrays and of a \<^verbatim>\<open>DWORD\<close>.\<close>

fun bytes_of_wchars :: "wchar_t list \<Rightarrow> BYTE list" where
  "bytes_of_wchars [] = []"
| "bytes_of_wchars (c # cs) = ucast c # ucast (drop_bit 8 c) # bytes_of_wchars cs"

fun wchars_of_bytes :: "BYTE list \<Rightarrow> wchar_t list" where
  "wchars_of_bytes (lo # hi # bs) = (ucast lo OR push_bit 8 (ucast hi)) # wchars_of_bytes bs"
| "wchars_of_bytes bs = []"

definition bytes_of_dword :: "DWORD \<Rightarrow> BYTE list" where
  "bytes_of_dword d =
     [ucast d, ucast (drop_bit 8 d), ucast (drop_bit 16 d), ucast (drop_bit 24 d)]"

definition dword_of_bytes :: "BYTE list \<Rightarrow> DWORD" where
  "dword_of_bytes bs =
     (case bs of
        b0 # b1 # b2 # b3 # _ \<Rightarrow>
          ucast b0 OR push_bit 8 (ucast b1) OR push_bit 16 (ucast b2) OR push_bit 24 (ucast b3)
      | _ \<Rightarrow> 0)"

subsection \<open>RegValue\<close>

record RegValue =
  m_typeId :: DWORD
  m_dword :: DWORD
  m_string :: wstring
  m_expandString :: wstring
  m_multiString :: "wstring list"
  m_binary :: "BYTE list"

text \<open>The default member initialisers, and the constructor taking a type.\<close>

definition RegValue_default :: RegValue where
  "RegValue_default =
     \<lparr>m_typeId = REG_NONE, m_dword = 0, m_string = [], m_expandString = [],
      m_multiString = [], m_binary = []\<rparr>"

definition RegValue_ctor :: "DWORD \<Rightarrow> RegValue" where
  "RegValue_ctor typeId = RegValue_default\<lparr>m_typeId := typeId\<rparr>"

definition GetType :: "RegValue \<Rightarrow> DWORD" where
  "GetType v = m_typeId v"

definition IsEmpty :: "RegValue \<Rightarrow> bool" where
  "IsEmpty v \<longleftrightarrow> m_typeId v = REG_NONE"

definition ResetValues :: "RegValue \<Rightarrow> RegValue" where
  "ResetValues v =
     v\<lparr>m_dword := 0, m_string := [], m_expandString := [], m_multiString := [],
       m_binary := []\<rparr>"

definition Reset :: "RegValue \<Rightarrow> DWORD \<Rightarrow> RegValue" where
  "Reset v type = (ResetValues v)\<lparr>m_typeId := type\<rparr>"

text \<open>The const accessors return the slot or throw \<^verbatim>\<open>std::invalid_argument\<close>.\<close>

definition Dword :: "RegValue \<Rightarrow> error + DWORD" where
  "Dword v = (if m_typeId v \<noteq> REG_DWORD then Inl invalid_argument else Inr (m_dword v))"

definition String :: "RegValue \<Rightarrow> error + wstring" where
  "String v = (if m_typeId v \<noteq> REG_SZ then Inl invalid_argument else Inr (m_string v))"

definition ExpandString :: "RegValue \<Rightarrow> error + wstring" where
  "ExpandString v =
     (if m_typeId v \<noteq> REG_EXPAND_SZ then Inl invalid_argument else Inr (m_expandString v))"

definition MultiString :: "RegValue \<Rightarrow> error + wstring list" where
  "MultiString v =
     (if m_typeId v \<noteq> REG_MULTI_SZ then Inl invalid_argument else Inr (m_multiString v))"

definition Binary :: "RegValue \<Rightarrow> error + BYTE list" where
  "Binary v = (if m_typeId v \<noteq> REG_BINARY then Inl invalid_argument else Inr (m_binary v))"

text \<open>
  The non-const accessors return a reference to the slot. A reference is the pair of the
  slot's current content and the function that stores a new content into the object.
\<close>

type_synonym 'a reference = "'a \<times> ('a \<Rightarrow> RegValue)"

definition Dword_ref :: "RegValue \<Rightarrow> error + DWORD reference" where
  "Dword_ref v =
     (if m_typeId v \<noteq> REG_DWORD then Inl invalid_argument
      else Inr (m_dword v, \<lambda>x. v\<lparr>m_dword := x\<rparr>))"

definition String_ref :: "RegValue \<Rightarrow> error + wstring reference" where
  "String_ref v =
     (if m_typeId v \<noteq> REG_SZ then Inl invalid_argument
      else Inr (m_string v, \<lambda>x. v\<lparr>m_string := x\<rparr>))"

definition ExpandString_ref :: "RegValue \<Rightarrow> error + wstring reference" where
  "ExpandString_ref v =
     (if m_typeId v \<noteq> REG_EXPAND_SZ then Inl invalid_argument
      else Inr (m_expandString v, \<lambda>x. v\<lparr>m_expandString := x\<rparr>))"

definition MultiString_ref :: "RegValue \<Rightarrow> error + wstring list reference" where
  "MultiString_ref v =
     (if m_typeId v \<noteq> REG_MULTI_SZ then Inl invalid_argument
      else Inr (m_multiString v, \<lambda>x. v\<lparr>m_multiString := x\<rparr>))"

definition Binary_ref :: "RegValue \<Rightarrow> error + BYTE list reference" where
  "Binary_ref v =
     (if m_typeId v \<noteq> REG_BINARY then Inl invalid_argument
      else Inr (m_binary v, \<lambda>x. v\<lparr>m_binary := x\<rparr>))"

text \<open>An assignment through the reference an accessor returned, as in \<^verbatim>\<open>v.String() = s\<close>.\<close>

definition assign :: "error + 'a reference \<Rightarrow> 'a \<Rightarrow> error + RegValue" where
  "assign r x = (case r of Inl e \<Rightarrow> Inl e | Inr (cur, put) \<Rightarrow> Inr (put x))"

subsection \<open>SafeSizeToDwordCast\<close>

text \<open>
  The largest \<^verbatim>\<open>DWORD\<close>, and the largest \<^verbatim>\<open>size_t\<close> of each build. Without \<^verbatim>\<open>_WIN64\<close>
  the function is the identity conversion between two 32-bit types.
\<close>

definition DWORD_max :: nat where
  "DWORD_max = unat (- 1 :: DWORD)"

definition size_t_max :: "build \<Rightarrow> nat" where
  "size_t_max b = (case b of Win32 \<Rightarrow> 2 ^ 32 - 1 | Win64 \<Rightarrow> 2 ^ 64 - 1)"

definition SafeSizeToDwordCast :: "build \<Rightarrow> nat \<Rightarrow> error + DWORD" where
  "SafeSizeToDwordCast b sz =
     (case b of
        Win64 \<Rightarrow> if sz > DWORD_max then Inl overflow_error else Inr (of_nat sz)
      | Win32 \<Rightarrow> Inr (of_nat sz))"

subsection \<open>The store primitives\<close>

text \<open>
  The registry itself is the platform's. Its state here is what the wrappers can observe:
  for every key handle the entries under it, each a type identifier and the bytes of the
  data, and the sequence of native calls made so far.
\<close>

datatype api_call =
    Call_RegCloseKey HKEY
  | Call_RegQueryValueEx HKEY wstring "nat option"
  | Call_RegSetValueEx HKEY wstring DWORD "BYTE list"

record world =
  entries :: "HKEY \<Rightarrow> wstring \<rightharpoonup> DWORD \<times> BYTE list"
  trace :: "api_call list"

definition called :: "world \<Rightarrow> api_call \<Rightarrow> world" where
  "called w c = w\<lparr>trace := trace w @ [c]\<rparr>"

text \<open>
  Modelled from the spec: the store primitive "read one entry's declared kind/size"
  (\<^verbatim>\<open>RegQueryValueEx\<close> with no data buffer), which is the platform's and not in the
  repository. It returns the status, the type and the byte count of the entry.
\<close>

definition RegQueryValueEx_info ::
  "world \<Rightarrow> HKEY \<Rightarrow> wstring \<Rightarrow> (LONG \<times> DWORD \<times> DWORD) \<times> world" where
  "RegQueryValueEx_info w hKey valueName =
     (let w' = called w (Call_RegQueryValueEx hKey valueName None) in
      if hKey = nullptr then ((ERROR_INVALID_HANDLE, 0, 0), w')
      else case entries w hKey valueName of
             None \<Rightarrow> ((ERROR_FILE_NOT_FOUND, 0, 0), w')
           | Some (ty, dat) \<Rightarrow> ((ERROR_SUCCESS, ty, of_nat (length dat)), w'))"

text \<open>
  Modelled from the spec: the store primitive "read one entry's bytes"
  (\<^verbatim>\<open>RegQueryValueEx\<close> with a data buffer), which is the platform's and not in the
  repository. \<open>mem\<close> is the memory image at the buffer pointer and \<open>cb\<close> the byte count
  the caller announces. The bytes of the entry are copied verbatim to the start of the
  buffer when they fit; the result is the status, the memory image afterwards and the
  byte count of the entry.
\<close>

definition RegQueryValueEx_data ::
  "world \<Rightarrow> HKEY \<Rightarrow> wstring \<Rightarrow> BYTE list \<Rightarrow> DWORD \<Rightarrow> (LONG \<times> BYTE list \<times> DWORD) \<times> world" where
  "RegQueryValueEx_data w hKey valueName mem cb =
     (let w' = called w (Call_RegQueryValueEx hKey valueName (Some (unat cb))) in
      if hKey = nullptr then ((ERROR_INVALID_HANDLE, mem, cb), w')
      else case entries w hKey valueName of
             None \<Rightarrow> ((ERROR_FILE_NOT_FOUND, mem, cb), w')
           | Some (ty, dat) \<Rightarrow>
               if unat cb < length dat then ((ERROR_MORE_DATA, mem, of_nat (length dat)), w')
               else ((ERROR_SUCCESS, dat @ drop (length dat) mem, of_nat (length dat)), w'))"

text \<open>
  Modelled from the spec: the store primitive "write one entry's bytes with a declared
  kind" (\<^verbatim>\<open>RegSetValueEx\<close>), which is the platform's and not in the repository. The first
  \<open>cb\<close> bytes of the memory image at the data pointer become the entry's data.
\<close>

definition RegSetValueEx ::
  "world \<Rightarrow> HKEY \<Rightarrow> wstring \<Rightarrow> DWORD \<Rightarrow> BYTE list \<Rightarrow> DWORD \<Rightarrow> LONG \<times> world" where
  "RegSetValueEx w hKey valueName ty mem cb =
     (let dat = take (unat cb) mem;
          w' = called w (Call_RegSetValueEx hKey valueName ty dat) in
      if hKey = nullptr then (ERROR_INVALID_HANDLE, w')
      else (ERROR_SUCCESS,
            w'\<lparr>entries := (entries w')(hKey := (entries w' hKey)(valueName \<mapsto> (ty, dat)))\<rparr>))"

text \<open>
  Modelled from the spec: the store primitive "close node" (\<^verbatim>\<open>RegCloseKey\<close>), which is
  the platform's and not in the repository. Only the fact that it was called is observed.
\<close>

definition RegCloseKey :: "world \<Rightarrow> HKEY \<Rightarrow> LONG \<times> world" where
  "RegCloseKey w hKey =
     (if hKey = nullptr then (ERROR_INVALID_HANDLE, called w (Call_RegCloseKey hKey))
      else (ERROR_SUCCESS, called w (Call_RegCloseKey hKey)))"

subsection \<open>RegKey\<close>

record RegKey =
  m_hKey :: HKEY

definition RegKey_default :: RegKey where
  "RegKey_default = \<lparr>m_hKey = nullptr\<rparr>"

definition RegKey_ctor :: "HKEY \<Rightarrow> RegKey" where
  "RegKey_ctor hKey = \<lparr>m_hKey = hKey\<rparr>"

definition Get :: "RegKey \<Rightarrow> HKEY" where
  "Get k = m_hKey k"

definition IsValid :: "RegKey \<Rightarrow> bool" where
  "IsValid k \<longleftrightarrow> m_hKey k \<noteq> nullptr"

text \<open>\<^verbatim>\<open>Close()\<close>: the object afterwards and the world afterwards.\<close>

definition Close :: "RegKey \<Rightarrow> world \<Rightarrow> RegKey \<times> world" where
  "Close k w =
     (let w' = (if m_hKey k \<noteq> nullptr then snd (RegCloseKey w (m_hKey k)) else w)
      in (k\<lparr>m_hKey := nullptr\<rparr>, w'))"

text \<open>The move constructor: the new object and the source afterwards.\<close>

definition RegKey_move_ctor :: "RegKey \<Rightarrow> RegKey \<times> RegKey" where
  "RegKey_move_ctor other = (\<lparr>m_hKey = m_hKey other\<rparr>, other\<lparr>m_hKey := nullptr\<rparr>)"

text \<open>
  Move assignment compares the addresses of its two operands, so the objects live in a
  store from addresses to objects, and \<open>this\<close> and \<open>other\<close> are addresses.
\<close>

type_synonym addr = nat
type_synonym heap = "addr \<Rightarrow> RegKey"

definition RegKey_move_assign :: "addr \<Rightarrow> addr \<Rightarrow> heap \<Rightarrow> world \<Rightarrow> heap \<times> world" where
  "RegKey_move_assign this other h w =
     (if other \<noteq> this then
        (let (k, w') = Close (h this) w;
             h1 = h(this := k);
             h2 = h1(this := (h1 this)\<lparr>m_hKey := m_hKey (h1 other)\<rparr>);
             h3 = h2(other := (h2 other)\<lparr>m_hKey := nullptr\<rparr>)
         in (h3, w'))
      else (h, w))"

text \<open>\<^verbatim>\<open>Close()\<close> on an object of the store.\<close>

definition Close_at :: "addr \<Rightarrow> heap \<Rightarrow> world \<Rightarrow> heap \<times> world" where
  "Close_at a h w = (let (k, w') = Close (h a) w in (h(a := k), w'))"

definition Detach :: "RegKey \<Rightarrow> HKEY \<times> RegKey" where
  "Detach k = (m_hKey k, k\<lparr>m_hKey := nullptr\<rparr>)"

definition Attach :: "RegKey \<Rightarrow> HKEY \<Rightarrow> world \<Rightarrow> RegKey \<times> world" where
  "Attach k hKey w = (let (k', w') = Close k w in (k'\<lparr>m_hKey := hKey\<rparr>, w'))"

subsection \<open>Helpers called by QueryValue\<close>

text \<open>
  In every helper \<open>valueSize\<close> is the byte count that \<open>QueryValue\<close> obtained from the
  store. The buffer handed to the store is given by its memory image.
\<close>

definition ReadValueDwordInternal ::
  "world \<Rightarrow> HKEY \<Rightarrow> wstring \<Rightarrow> (error + RegValue) \<times> world" where
  "ReadValueDwordInternal w hKey valueName =
     (let valueData = (0 :: DWORD);
          valueSize = (4 :: DWORD);
          ((result, mem, valueSize'), w') =
             RegQueryValueEx_data w hKey valueName (bytes_of_dword valueData) valueSize;
          valueData = dword_of_bytes mem
      in if result \<noteq> ERROR_SUCCESS then (Inl (RegException result), w')
         else (assign (Dword_ref (RegValue_ctor REG_DWORD)) valueData, w'))"

text \<open>
  The string is resized to \<open>valueSize / sizeof(wchar_t)\<close> units; its storage is those
  units and the terminator. The subscript \<open>stringBufferLenInWchars - 1\<close> is computed in
  \<^verbatim>\<open>DWORD\<close> arithmetic.
\<close>

definition ReadValueStringInternal ::
  "world \<Rightarrow> HKEY \<Rightarrow> wstring \<Rightarrow> DWORD \<Rightarrow> (error + RegValue) \<times> world" where
  "ReadValueStringInternal w hKey valueName valueSize =
     (let stringBufferLenInWchars = valueSize div 2;
          str = resize [] (unat stringBufferLenInWchars);
          sizeInBytes = valueSize;
          ((result, mem, sizeInBytes'), w') =
             RegQueryValueEx_data w hKey valueName (bytes_of_wchars (c_str str)) sizeInBytes;
          str = take (length str) (wchars_of_bytes mem)
      in if result \<noteq> ERROR_SUCCESS then (Inl (RegException result), w')
         else case wstring_at str (unat (stringBufferLenInWchars - 1)) of
                Inl e \<Rightarrow> (Inl e, w')
              | Inr c \<Rightarrow>
                  (let str = (if c = 0
                              then resize str (unat (stringBufferLenInWchars - 1))
                              else str)
                   in (assign (String_ref (RegValue_ctor REG_SZ)) str, w')))"

definition ReadValueExpandStringInternal ::
  "world \<Rightarrow> HKEY \<Rightarrow> wstring \<Rightarrow> DWORD \<Rightarrow> (error + RegValue) \<times> world" where
  "ReadValueExpandStringInternal w hKey valueName valueSize =
     (let stringBufferLenInWchars = valueSize div 2;
          str = resize [] (unat stringBufferLenInWchars);
          sizeInBytes = valueSize;
          ((result, mem, sizeInBytes'), w') =
             RegQueryValueEx_data w hKey valueName (bytes_of_wchars (c_str str)) sizeInBytes;
          str = take (length str) (wchars_of_bytes mem)
      in if result \<noteq> ERROR_SUCCESS then (Inl (RegException result), w')
         else case wstring_at str (unat (stringBufferLenInWchars - 1)) of
                Inl e \<Rightarrow> (Inl e, w')
              | Inr c \<Rightarrow>
                  (let str = (if c = 0
                              then resize str (unat (stringBufferLenInWchars - 1))
                              else str)
                   in (assign (ExpandString_ref (RegValue_ctor REG_EXPAND_SZ)) str, w')))"

definition ReadValueBinaryInternal ::
  "world \<Rightarrow> HKEY \<Rightarrow> wstring \<Rightarrow> DWORD \<Rightarrow> (error + RegValue) \<times> world" where
  "ReadValueBinaryInternal w hKey valueName valueSize =
     (let binaryData = replicate (unat valueSize) (0 :: BYTE);
          sizeInBytes = valueSize;
          ((result, mem, sizeInBytes'), w') =
             RegQueryValueEx_data w hKey valueName binaryData sizeInBytes;
          binaryData = mem
      in if result \<noteq> ERROR_SUCCESS then (Inl (RegException result), w')
         else (assign (Binary_ref (RegValue_ctor REG_BINARY)) binaryData, w'))"

text \<open>
  \<^verbatim>\<open>wcslen(pszz)\<close> on the units from \<open>pszz\<close> to the end of the buffer: the number of
  units before the first zero unit; running off the buffer is a read outside it.
\<close>

fun wcslen :: "wchar_t list \<Rightarrow> error + nat" where
  "wcslen [] = Inl out_of_bounds"
| "wcslen (c # cs) =
     (if c = 0 then Inr 0
      else case wcslen cs of Inl e \<Rightarrow> Inl e | Inr n \<Rightarrow> Inr (Suc n))"

text \<open>
  The scanning loop of \<open>ReadValueMultiStringInternal\<close>; \<open>pszz\<close> is the offset of the
  pointer into the buffer, counted in units.
\<close>

function ReadValueMultiStringInternal_loop ::
  "wchar_t list \<Rightarrow> nat \<Rightarrow> wstring list \<Rightarrow> error + wstring list" where
  "ReadValueMultiStringInternal_loop buffer pszz multiStrings =
     (case vector_at buffer pszz of
        Inl e \<Rightarrow> Inl e
      | Inr c \<Rightarrow>
          if c \<noteq> 0 then
            (case wcslen (drop pszz buffer) of
               Inl e \<Rightarrow> Inl e
             | Inr len \<Rightarrow>
                 ReadValueMultiStringInternal_loop buffer (pszz + (len + 1))
                   (multiStrings @ [take len (drop pszz buffer)]))
          else Inr multiStrings)"
  by pat_completeness auto
termination
  by (relation "measure (\<lambda>(buffer, pszz, multiStrings). length buffer - pszz)")
     (auto simp: vector_at_def split: if_splits)

text \<open>The buffer is a vector of \<open>valueSize\<close> units, of which the store fills \<open>valueSize\<close> bytes.\<close>

definition ReadValueMultiStringInternal ::
  "world \<Rightarrow> HKEY \<Rightarrow> wstring \<Rightarrow> DWORD \<Rightarrow> (error + RegValue) \<times> world" where
  "ReadValueMultiStringInternal w hKey valueName valueSize =
     (let buffer = replicate (unat valueSize) (0 :: wchar_t);
          sizeInBytes = valueSize;
          ((result, mem, sizeInBytes'), w') =
             RegQueryValueEx_data w hKey valueName (bytes_of_wchars buffer) sizeInBytes;
          buffer = wchars_of_bytes mem
      in if result \<noteq> ERROR_SUCCESS then (Inl (RegException result), w')
         else case ReadValueMultiStringInternal_loop buffer 0 [] of
                Inl e \<Rightarrow> (Inl e, w')
              | Inr multiStrings \<Rightarrow>
                  (assign (MultiString_ref (RegValue_ctor REG_MULTI_SZ)) multiStrings, w'))"

subsection \<open>Helpers called by SetValue\<close>

text \<open>A thrown exception leaves the world as it was when it was thrown.\<close>

text \<open>
  The data pointer \<^verbatim>\<open>&data[0]\<close> is only passed on: the store reads \<open>dataSize\<close> bytes from
  it, which for an empty blob is none.
\<close>

definition WriteValueBinaryInternal ::
  "build \<Rightarrow> world \<Rightarrow> HKEY \<Rightarrow> wstring \<Rightarrow> RegValue \<Rightarrow> (error + unit) \<times> world" where
  "WriteValueBinaryInternal b w hKey valueName v =
     (case Binary v of
        Inl e \<Rightarrow> (Inl e, w)
      | Inr data \<Rightarrow>
          (case SafeSizeToDwordCast b (length data) of
             Inl e \<Rightarrow> (Inl e, w)
           | Inr dataSize \<Rightarrow>
               (let (result, w') = RegSetValueEx w hKey valueName REG_BINARY data dataSize
                in if result \<noteq> ERROR_SUCCESS then (Inl (RegException result), w')
                   else (Inr (), w'))))"

definition WriteValueDwordInternal ::
  "world \<Rightarrow> HKEY \<Rightarrow> wstring \<Rightarrow> RegValue \<Rightarrow> (error + unit) \<times> world" where
  "WriteValueDwordInternal w hKey valueName v =
     (case Dword v of
        Inl e \<Rightarrow> (Inl e, w)
      | Inr data \<Rightarrow>
          (let dataSize = (4 :: DWORD);
               (result, w') =
                  RegSetValueEx w hKey valueName REG_DWORD (bytes_of_dword data) dataSize
           in if result \<noteq> ERROR_SUCCESS then (Inl (RegException result), w')
              else (Inr (), w')))"

definition WriteValueStringInternal ::
  "build \<Rightarrow> world \<Rightarrow> HKEY \<Rightarrow> wstring \<Rightarrow> RegValue \<Rightarrow> (error + unit) \<times> world" where
  "WriteValueStringInternal b w hKey valueName v =
     (case String v of
        Inl e \<Rightarrow> (Inl e, w)
      | Inr str \<Rightarrow>
          (case SafeSizeToDwordCast b ((length str + 1) * 2) of
             Inl e \<Rightarrow> (Inl e, w)
           | Inr dataSize \<Rightarrow>
               (let (result, w') =
                      RegSetValueEx w hKey valueName REG_SZ (bytes_of_wchars (c_str str)) dataSize
                in if result \<noteq> ERROR_SUCCESS then (Inl (RegException result), w')
                   else (Inr (), w'))))"

definition WriteValueExpandStringInternal ::
  "build \<Rightarrow> world \<Rightarrow> HKEY \<Rightarrow> wstring \<Rightarrow> RegValue \<Rightarrow> (error + unit) \<times> world" where
  "WriteValueExpandStringInternal b w hKey valueName v =
     (case ExpandString v of
        Inl e \<Rightarrow> (Inl e, w)
      | Inr str \<Rightarrow>
          (case SafeSizeToDwordCast b ((length str + 1) * 2) of
             Inl e \<Rightarrow> (Inl e, w)
           | Inr dataSize \<Rightarrow>
               (let (result, w') =
                      RegSetValueEx w hKey valueName REG_EXPAND_SZ (bytes_of_wchars (c_str str))
                        dataSize
                in if result \<noteq> ERROR_SUCCESS then (Inl (RegException result), w')
                   else (Inr (), w'))))"

text \<open>The first loop of \<open>WriteValueMultiStringInternal\<close>: the buffer size in units.\<close>

fun totalLen_loop :: "wstring list \<Rightarrow> nat \<Rightarrow> nat" where
  "totalLen_loop [] totalLen = totalLen"
| "totalLen_loop (s # ss) totalLen = totalLen_loop ss (totalLen + (length s + 1))"

text \<open>\<^verbatim>\<open>wmemcpy(dest, src, n)\<close> into the buffer at offset \<open>dest\<close>, and a store through \<open>dest\<close>.\<close>

definition wmemcpy :: "wchar_t list \<Rightarrow> nat \<Rightarrow> wchar_t list \<Rightarrow> nat \<Rightarrow> error + wchar_t list" where
  "wmemcpy buffer dest src n =
     (if dest + n \<le> length buffer \<and> n \<le> length src
      then Inr (take dest buffer @ take n src @ drop (dest + n) buffer)
      else Inl out_of_bounds)"

definition store_at :: "wchar_t list \<Rightarrow> nat \<Rightarrow> wchar_t \<Rightarrow> error + wchar_t list" where
  "store_at buffer dest c =
     (if dest < length buffer then Inr (buffer[dest := c]) else Inl out_of_bounds)"

text \<open>The second loop: the deep copy; it returns the buffer and the final \<open>dest\<close>.\<close>

fun copy_loop :: "wstring list \<Rightarrow> wchar_t list \<Rightarrow> nat \<Rightarrow> error + wchar_t list \<times> nat" where
  "copy_loop [] buffer dest = Inr (buffer, dest)"
| "copy_loop (s # ss) buffer dest =
     (case wmemcpy buffer dest (c_str s) (length s + 1) of
        Inl e \<Rightarrow> Inl e
      | Inr buffer' \<Rightarrow> copy_loop ss buffer' (dest + (length s + 1)))"

text \<open>The buffer that \<open>WriteValueMultiStringInternal\<close> builds before it sizes and writes it.\<close>

definition multiString_buffer :: "wstring list \<Rightarrow> error + wchar_t list" where
  "multiString_buffer multiString =
     (let totalLen = totalLen_loop multiString 0;
          totalLen = totalLen + 1;
          buffer = resize [] totalLen
      in if multiString \<noteq> [] then
           (case copy_loop multiString buffer 0 of
              Inl e \<Rightarrow> Inl e
            | Inr (buffer', dest) \<Rightarrow> store_at buffer' dest 0)
         else
           (let buffer = resize buffer 2 in
            case store_at buffer 0 0 of
              Inl e \<Rightarrow> Inl e
            | Inr buffer' \<Rightarrow> store_at buffer' 1 0))"

definition WriteValueMultiStringInternal ::
  "build \<Rightarrow> world \<Rightarrow> HKEY \<Rightarrow> wstring \<Rightarrow> RegValue \<Rightarrow> (error + unit) \<times> world" where
  "WriteValueMultiStringInternal b w hKey valueName v =
     (case MultiString v of
        Inl e \<Rightarrow> (Inl e, w)
      | Inr multiString \<Rightarrow>
          (case multiString_buffer multiString of
             Inl e \<Rightarrow> (Inl e, w)
           | Inr buffer \<Rightarrow>
               (case SafeSizeToDwordCast b (length buffer * 2) of
                  Inl e \<Rightarrow> (Inl e, w)
                | Inr dataSize \<Rightarrow>
                    (let (result, w') =
                           RegSetValueEx w hKey valueName REG_MULTI_SZ (bytes_of_wchars buffer)
                             dataSize
                     in if result \<noteq> ERROR_SUCCESS then (Inl (RegException result), w')
                        else (Inr (), w')))))"

subsection \<open>QueryValue and SetValue\<close>

definition QueryValue :: "world \<Rightarrow> HKEY \<Rightarrow> wstring \<Rightarrow> (error + RegValue) \<times> world" where
  "QueryValue w hKey valueName =
     (let ((result, valueType, dataSize), w') = RegQueryValueEx_info w hKey valueName
      in if result \<noteq> ERROR_SUCCESS then (Inl (RegException result), w')
         else if valueType = REG_BINARY then ReadValueBinaryInternal w' hKey valueName dataSize
         else if valueType = REG_DWORD then ReadValueDwordInternal w' hKey valueName
         else if valueType = REG_SZ then ReadValueStringInternal w' hKey valueName dataSize
         else if valueType = REG_EXPAND_SZ
           then ReadValueExpandStringInternal w' hKey valueName dataSize
         else if valueType = REG_MULTI_SZ
           then ReadValueMultiStringInternal w' hKey valueName dataSize
         else (Inl invalid_argument, w'))"

definition SetValue ::
  "build \<Rightarrow> world \<Rightarrow> HKEY \<Rightarrow> wstring \<Rightarrow> RegValue \<Rightarrow> (error + unit) \<times> world" where
  "SetValue b w hKey valueName v =
     (if GetType v = REG_BINARY then WriteValueBinaryInternal b w hKey valueName v
      else if GetType v = REG_DWORD then WriteValueDwordInternal w hKey valueName v
      else if GetType v = REG_SZ then WriteValueStringInternal b w hKey valueName v
      else if GetType v = REG_EXPAND_SZ then WriteValueExpandStringInternal b w hKey valueName v
      else if GetType v = REG_MULTI_SZ then WriteValueMultiStringInternal b w hKey valueName v
      else (Inl invalid_argument, w))"

text \<open>Writing a value and reading the entry back, as the round trip through the store.\<close>

definition write_then_read ::
  "build \<Rightarrow> world \<Rightarrow> HKEY \<Rightarrow> wstring \<Rightarrow> RegValue \<Rightarrow> error + RegValue" where
  "write_then_read b w hKey valueName v =
     (case SetValue b w hKey valueName v of
        (Inl e, w') \<Rightarrow> Inl e
      | (Inr u, w') \<Rightarrow> fst (QueryValue w' hKey valueName))"

subsection \<open>ExpandEnvironmentStrings\<close>

text \<open>
  The native expansion call is the platform's and its result depends on the process
  environment, so both calls are parameters: \<open>sizing source\<close> is what the call with no
  buffer returns, and \<open>filling source n\<close> is what the call with a buffer of \<open>n\<close> units
  returns together with the units it wrote to the start of the buffer.
\<close>

definition ExpandEnvironmentStrings ::
  "(wstring \<Rightarrow> DWORD) \<Rightarrow> (wstring \<Rightarrow> DWORD \<Rightarrow> DWORD \<times> wchar_t list) \<Rightarrow> wstring \<Rightarrow> wstring" where
  "ExpandEnvironmentStrings sizing filling source =
     (let requiredLen = sizing source
      in if requiredLen = 0 then []
         else
           (let str = resize [] (unat requiredLen);
                (len, written) = filling source requiredLen;
                str = take (length str) (written @ drop (length written) str)
            in if len = 0 then []
               else resize str (unat (len - 1))))"

subsection \<open>Initial states\<close>

text \<open>A store with no entries and no calls made, and a memory of default-constructed keys.\<close>

definition empty_world :: world where
  "empty_world = \<lparr>entries = (\<lambda>hKey. Map.empty), trace = []\<rparr>"

definition default_heap :: heap where
  "default_heap = (\<lambda>a. RegKey_default)"

text \<open>A store that holds a single entry.\<close>

definition single_entry :: "HKEY \<Rightarrow> wstring \<Rightarrow> DWORD \<Rightarrow> BYTE list \<Rightarrow> world" where
  "single_entry hKey valueName ty dat =
     \<lparr>entries = (\<lambda>h. Map.empty)(hKey := [valueName \<mapsto> (ty, dat)]), trace = []\<rparr>"

text \<open>The five kinds that the dispatch of \<open>QueryValue\<close> and \<open>SetValue\<close> knows.\<close>

definition supported_kinds :: "DWORD set" where
  "supported_kinds = {REG_DWORD, REG_SZ, REG_EXPAND_SZ, REG_MULTI_SZ, REG_BINARY}"

section \<open>Properties\<close>

lemmas REG_defs =
  REG_NONE_def REG_SZ_def REG_EXPAND_SZ_def REG_BINARY_def REG_DWORD_def REG_MULTI_SZ_def

lemmas ERROR_defs =
  ERROR_SUCCESS_def ERROR_FILE_NOT_FOUND_def ERROR_INVALID_HANDLE_def ERROR_MORE_DATA_def

subsection \<open>Typed accessors\<close>

text \<open>
  C6. For every \<open>RegValue\<close> and each of the five kinds: when the value's type identifier
  differs from the accessor's kind, the const accessor and the non-const accessor both
  fail with \<open>invalid_argument\<close>, so no payload is returned; when it matches, the const
  accessor returns the slot of that kind, and the reference returned by the non-const
  accessor reads that slot and an assignment through it replaces that slot only.
\<close>

theorem accessor_kind_discipline:
  "(m_typeId v \<noteq> REG_DWORD \<longrightarrow>
      Dword v = Inl invalid_argument \<and> Dword_ref v = Inl invalid_argument) \<and>
   (m_typeId v = REG_DWORD \<longrightarrow>
      Dword v = Inr (m_dword v) \<and> map_sum id fst (Dword_ref v) = Inr (m_dword v) \<and>
      (\<forall>x. assign (Dword_ref v) x = Inr (v\<lparr>m_dword := x\<rparr>))) \<and>
   (m_typeId v \<noteq> REG_SZ \<longrightarrow>
      String v = Inl invalid_argument \<and> String_ref v = Inl invalid_argument) \<and>
   (m_typeId v = REG_SZ \<longrightarrow>
      String v = Inr (m_string v) \<and> map_sum id fst (String_ref v) = Inr (m_string v) \<and>
      (\<forall>x. assign (String_ref v) x = Inr (v\<lparr>m_string := x\<rparr>))) \<and>
   (m_typeId v \<noteq> REG_EXPAND_SZ \<longrightarrow>
      ExpandString v = Inl invalid_argument \<and> ExpandString_ref v = Inl invalid_argument) \<and>
   (m_typeId v = REG_EXPAND_SZ \<longrightarrow>
      ExpandString v = Inr (m_expandString v) \<and>
      map_sum id fst (ExpandString_ref v) = Inr (m_expandString v) \<and>
      (\<forall>x. assign (ExpandString_ref v) x = Inr (v\<lparr>m_expandString := x\<rparr>))) \<and>
   (m_typeId v \<noteq> REG_MULTI_SZ \<longrightarrow>
      MultiString v = Inl invalid_argument \<and> MultiString_ref v = Inl invalid_argument) \<and>
   (m_typeId v = REG_MULTI_SZ \<longrightarrow>
      MultiString v = Inr (m_multiString v) \<and>
      map_sum id fst (MultiString_ref v) = Inr (m_multiString v) \<and>
      (\<forall>x. assign (MultiString_ref v) x = Inr (v\<lparr>m_multiString := x\<rparr>))) \<and>
   (m_typeId v \<noteq> REG_BINARY \<longrightarrow>
      Binary v = Inl invalid_argument \<and> Binary_ref v = Inl invalid_argument) \<and>
   (m_typeId v = REG_BINARY \<longrightarrow>
      Binary v = Inr (m_binary v) \<and> map_sum id fst (Binary_ref v) = Inr (m_binary v) \<and>
      (\<forall>x. assign (Binary_ref v) x = Inr (v\<lparr>m_binary := x\<rparr>)))"
  by (simp add: Dword_def Dword_ref_def String_def String_ref_def ExpandString_def
      ExpandString_ref_def MultiString_def MultiString_ref_def Binary_def Binary_ref_def
      assign_def)

text \<open>
  At a value reset to \<open>REG_SZ\<close>: the string accessors succeed, the others fail.
\<close>

theorem accessor_kind_discipline_witness:
  "String (Reset RegValue_default REG_SZ) = Inr [] \<and>
   Dword (Reset RegValue_default REG_SZ) = Inl invalid_argument \<and>
   Dword_ref (Reset RegValue_default REG_SZ) = Inl invalid_argument \<and>
   ExpandString (Reset RegValue_default REG_SZ) = Inl invalid_argument \<and>
   MultiString (Reset RegValue_default REG_SZ) = Inl invalid_argument \<and>
   Binary (Reset RegValue_default REG_SZ) = Inl invalid_argument \<and>
   assign (String_ref (Reset RegValue_default REG_SZ)) [72, 105] =
     Inr ((Reset RegValue_default REG_SZ)\<lparr>m_string := [72, 105]\<rparr>)"
  using accessor_kind_discipline [of "Reset RegValue_default REG_SZ"]
  by (simp add: Reset_def ResetValues_def RegValue_default_def REG_defs)

subsection \<open>The size cast\<close>

lemma DWORD_max_eq: "DWORD_max = 4294967295"
  by (simp add: DWORD_max_def unsigned_minus_1_eq_mask mask_eq_exp_minus_1)

lemma unat_of_nat_DWORD: "sz \<le> DWORD_max \<Longrightarrow> unat (of_nat sz :: DWORD) = sz"
  unfolding DWORD_max_def by (rule le_unat_uoi)

lemma SafeSizeToDwordCast_fits:
  "sz \<le> DWORD_max \<Longrightarrow> SafeSizeToDwordCast b sz = Inr (of_nat sz)"
  by (cases b) (simp_all add: SafeSizeToDwordCast_def)

lemma SafeSizeToDwordCast_overflow:
  "sz \<le> size_t_max b \<Longrightarrow> DWORD_max < sz \<Longrightarrow> SafeSizeToDwordCast b sz = Inl overflow_error"
  by (cases b) (simp_all add: SafeSizeToDwordCast_def size_t_max_def DWORD_max_eq)

lemma SetValue_binary_overflow:
  assumes "GetType v = REG_BINARY" "length (m_binary v) \<le> size_t_max b"
    "DWORD_max < length (m_binary v)"
  shows "SetValue b w hKey valueName v = (Inl overflow_error, w)"
  using assms
  by (simp add: SetValue_def WriteValueBinaryInternal_def Binary_def GetType_def
      SafeSizeToDwordCast_overflow)

lemma SetValue_string_overflow:
  assumes "GetType v = REG_SZ" "(length (m_string v) + 1) * 2 \<le> size_t_max b"
    "DWORD_max < (length (m_string v) + 1) * 2"
  shows "SetValue b w hKey valueName v = (Inl overflow_error, w)"
  using assms
  by (simp add: SetValue_def WriteValueStringInternal_def String_def GetType_def
      SafeSizeToDwordCast_overflow REG_defs)

lemma SetValue_expand_overflow:
  assumes "GetType v = REG_EXPAND_SZ" "(length (m_expandString v) + 1) * 2 \<le> size_t_max b"
    "DWORD_max < (length (m_expandString v) + 1) * 2"
  shows "SetValue b w hKey valueName v = (Inl overflow_error, w)"
  using assms
  by (simp add: SetValue_def WriteValueExpandStringInternal_def ExpandString_def GetType_def
      SafeSizeToDwordCast_overflow REG_defs)

lemma SetValue_multi_overflow:
  assumes "GetType v = REG_MULTI_SZ" "multiString_buffer (m_multiString v) = Inr buffer"
    "length buffer * 2 \<le> size_t_max b" "DWORD_max < length buffer * 2"
  shows "SetValue b w hKey valueName v = (Inl overflow_error, w)"
  using assms
  by (simp add: SetValue_def WriteValueMultiStringInternal_def MultiString_def GetType_def
      SafeSizeToDwordCast_overflow REG_defs)

text \<open>
  C7. A byte length is a \<^verbatim>\<open>size_t\<close> of the build. Whenever it exceeds the largest
  \<^verbatim>\<open>DWORD\<close>, which is \<open>2\<^sup>3\<^sup>2 - 1\<close>, the cast fails with \<open>overflow_error\<close>, and so does
  the write of a binary, string, expandable string or multi-string value whose byte length
  it is, with the store left untouched. Whenever it is within the limit the cast succeeds
  with a \<^verbatim>\<open>DWORD\<close> of the same value. (In a 32-bit build no \<^verbatim>\<open>size_t\<close> exceeds the
  limit.)
\<close>

theorem size_cast_overflow:
  "(sz \<le> size_t_max b \<and> DWORD_max < sz \<longrightarrow> SafeSizeToDwordCast b sz = Inl overflow_error) \<and>
   (sz \<le> DWORD_max \<longrightarrow> (\<exists>d. SafeSizeToDwordCast b sz = Inr d \<and> unat d = sz)) \<and>
   DWORD_max = 2 ^ 32 - 1 \<and>
   (GetType v = REG_BINARY \<and> length (m_binary v) \<le> size_t_max b \<and>
    DWORD_max < length (m_binary v) \<longrightarrow>
      SetValue b w hKey valueName v = (Inl overflow_error, w)) \<and>
   (GetType v = REG_SZ \<and> (length (m_string v) + 1) * 2 \<le> size_t_max b \<and>
    DWORD_max < (length (m_string v) + 1) * 2 \<longrightarrow>
      SetValue b w hKey valueName v = (Inl overflow_error, w)) \<and>
   (GetType v = REG_EXPAND_SZ \<and> (length (m_expandString v) + 1) * 2 \<le> size_t_max b \<and>
    DWORD_max < (length (m_expandString v) + 1) * 2 \<longrightarrow>
      SetValue b w hKey valueName v = (Inl overflow_error, w)) \<and>
   (GetType v = REG_MULTI_SZ \<and> multiString_buffer (m_multiString v) = Inr buffer \<and>
    length buffer * 2 \<le> size_t_max b \<and> DWORD_max < length buffer * 2 \<longrightarrow>
      SetValue b w hKey valueName v = (Inl overflow_error, w))"
  using SafeSizeToDwordCast_overflow [of sz b] SafeSizeToDwordCast_fits [of sz b]
    unat_of_nat_DWORD [of sz] DWORD_max_eq
    SetValue_binary_overflow [of v b w hKey valueName]
    SetValue_string_overflow [of v b w hKey valueName]
    SetValue_expand_overflow [of v b w hKey valueName]
    SetValue_multi_overflow [of v buffer b w hKey valueName]
  by simp

text \<open>
  In a 64-bit build: \<open>2\<^sup>3\<^sup>2\<close> overflows and \<open>2\<^sup>3\<^sup>2 - 1\<close> is kept; a blob of \<open>2\<^sup>3\<^sup>2\<close> bytes and a
  string of \<open>2\<^sup>3\<^sup>1 - 1\<close> units (\<open>2\<^sup>3\<^sup>2\<close> bytes with its terminator) are refused.
\<close>

theorem size_cast_overflow_witness:
  "SafeSizeToDwordCast Win64 4294967296 = Inl overflow_error \<and>
   (\<exists>d. SafeSizeToDwordCast Win64 4294967295 = Inr d \<and> unat d = 4294967295) \<and>
   SetValue Win64 empty_world 1 [86]
     ((RegValue_ctor REG_BINARY)\<lparr>m_binary := replicate 4294967296 0\<rparr>) =
     (Inl overflow_error, empty_world) \<and>
   SetValue Win64 empty_world 1 [86]
     ((RegValue_ctor REG_SZ)\<lparr>m_string := replicate 2147483647 65\<rparr>) =
     (Inl overflow_error, empty_world)"
  using size_cast_overflow [of 4294967296 Win64
      "(RegValue_ctor REG_BINARY)\<lparr>m_binary := replicate 4294967296 0\<rparr>" empty_world 1 "[86]"]
    size_cast_overflow [of 4294967295 Win64
      "(RegValue_ctor REG_SZ)\<lparr>m_string := replicate 2147483647 65\<rparr>" empty_world 1 "[86]"]
  by (simp add: size_t_max_def DWORD_max_eq GetType_def RegValue_ctor_def REG_defs)

subsection \<open>Multi-string framing\<close>

lemma length_c_str: "length (c_str s) = Suc (length s)"
  by (simp add: c_str_def)

lemma totalLen_loop_eq:
  "totalLen_loop ss t = t + length (concat (map c_str ss))"
  by (induction ss arbitrary: t) (simp_all add: length_c_str)

text \<open>The copy loop never leaves a buffer that has room, and lays the strings end to end.\<close>

lemma copy_loop_eq:
  assumes "dest + length (concat (map c_str ss)) \<le> length buffer"
  shows "copy_loop ss buffer dest =
    Inr (take dest buffer @ concat (map c_str ss) @
           drop (dest + length (concat (map c_str ss))) buffer,
         dest + length (concat (map c_str ss)))"
  using assms
proof (induction ss arbitrary: buffer dest)
  case Nil
  then show ?case by simp
next
  case (Cons s ss)
  let ?n = "length s + 1"
  let ?m = "length (concat (map c_str ss))"
  let ?buffer' = "take dest buffer @ c_str s @ drop (dest + ?n) buffer"
  from Cons.prems have fits: "dest + ?n + ?m \<le> length buffer"
    by (simp add: length_c_str)
  then have step: "wmemcpy buffer dest (c_str s) ?n = Inr ?buffer'"
    by (simp add: wmemcpy_def length_c_str)
  have len: "length ?buffer' = length buffer"
    using fits by (simp add: length_c_str)
  have rest: "(dest + ?n) + ?m \<le> length ?buffer'"
    using fits len by simp
  have tk: "take (dest + ?n) ?buffer' = take dest buffer @ c_str s"
    using fits by (simp add: length_c_str)
  have dr: "drop (dest + ?n + ?m) ?buffer' = drop (dest + ?n + ?m) buffer"
    using fits by (simp add: length_c_str add.commute)
  have "copy_loop (s # ss) buffer dest = copy_loop ss ?buffer' (dest + ?n)"
    using step by simp
  also have "\<dots> = Inr (take (dest + ?n) ?buffer' @ concat (map c_str ss) @
      drop (dest + ?n + ?m) ?buffer', dest + ?n + ?m)"
    by (rule Cons.IH [OF rest])
  also have "\<dots> = Inr (take dest buffer @ concat (map c_str (s # ss)) @
      drop (dest + length (concat (map c_str (s # ss)))) buffer,
      dest + length (concat (map c_str (s # ss))))"
    unfolding tk dr by (simp add: length_c_str add.assoc)
  finally show ?case .
qed

lemma multiString_buffer_eq:
  "multiString_buffer multiString =
     Inr (if multiString = [] then [0, 0] else concat (map c_str multiString) @ [0])"
proof (cases "multiString = []")
  case True
  then show ?thesis
    by (simp add: multiString_buffer_def resize_def store_at_def)
next
  case False
  let ?n = "length (concat (map c_str multiString))"
  let ?buffer = "replicate ?n (0 :: wchar_t) @ [0]"
  have resize: "resize [] (totalLen_loop multiString 0 + 1) = ?buffer"
    by (simp add: resize_def totalLen_loop_eq replicate_append_same)
  have "copy_loop multiString ?buffer 0 = Inr (concat (map c_str multiString) @ [0], ?n)"
    using copy_loop_eq [of 0 multiString ?buffer] by simp
  moreover have "store_at (concat (map c_str multiString) @ [0]) ?n 0 =
      Inr (concat (map c_str multiString) @ [0])"
    by (simp add: store_at_def)
  ultimately show ?thesis
    using False unfolding multiString_buffer_def Let_def resize by simp
qed

lemma length_bytes_of_wchars: "length (bytes_of_wchars ws) = 2 * length ws"
  by (induction ws) simp_all

lemma RegSetValueEx_valid:
  assumes "hKey \<noteq> nullptr"
  shows "\<exists>w'. RegSetValueEx w hKey valueName ty mem cb = (ERROR_SUCCESS, w') \<and>
           entries w' hKey valueName = Some (ty, take (unat cb) mem)"
  using assms by (simp add: RegSetValueEx_def called_def Let_def)

lemma SetValue_multi_valid:
  assumes "GetType v = REG_MULTI_SZ" "hKey \<noteq> nullptr"
    "multiString_buffer (m_multiString v) = Inr buffer" "length buffer * 2 \<le> DWORD_max"
  shows "\<exists>w'. SetValue b w hKey valueName v = (Inr (), w') \<and>
           entries w' hKey valueName = Some (REG_MULTI_SZ, bytes_of_wchars buffer)"
proof -
  define cb :: DWORD where "cb = of_nat (length buffer * 2)"
  have cast: "SafeSizeToDwordCast b (length buffer * 2) = Inr cb"
    unfolding cb_def by (rule SafeSizeToDwordCast_fits [OF assms(4)])
  have "unat cb = length buffer * 2"
    unfolding cb_def by (rule unat_of_nat_DWORD [OF assms(4)])
  then have all: "take (unat cb) (bytes_of_wchars buffer) = bytes_of_wchars buffer"
    by (simp add: length_bytes_of_wchars)
  obtain w' where w': "RegSetValueEx w hKey valueName REG_MULTI_SZ (bytes_of_wchars buffer) cb =
      (ERROR_SUCCESS, w')"
    "entries w' hKey valueName = Some (REG_MULTI_SZ, take (unat cb) (bytes_of_wchars buffer))"
    using RegSetValueEx_valid [OF assms(2)] by blast
  have "SetValue b w hKey valueName v = (Inr (), w')"
    using assms(1,3) w'(1) cast
    by (simp add: SetValue_def WriteValueMultiStringInternal_def MultiString_def GetType_def
        REG_defs)
  then show ?thesis using w'(2) all by simp
qed

text \<open>
  C2. The buffer built for a list of strings is, for the empty list, exactly two zero
  units (four bytes), and for a non-empty list every string in order, each followed by one
  zero unit, and then one more zero unit. No store through the destination pointer leaves
  the buffer. When the byte length fits a \<^verbatim>\<open>DWORD\<close>, the write on a valid handle stores
  exactly the memory image of that buffer as the \<open>REG_MULTI_SZ\<close> entry.
\<close>

theorem multi_string_framing:
  "multiString_buffer multiString =
     Inr (if multiString = [] then [0, 0]
          else concat (map (\<lambda>s. s @ [0]) multiString) @ [0]) \<and>
   length (bytes_of_wchars [0, 0]) = 4 \<and>
   (GetType v = REG_MULTI_SZ \<and> hKey \<noteq> nullptr \<and>
    multiString_buffer (m_multiString v) = Inr buffer \<and> length buffer * 2 \<le> DWORD_max \<longrightarrow>
      (\<exists>w'. SetValue b w hKey valueName v = (Inr (), w') \<and>
            entries w' hKey valueName = Some (REG_MULTI_SZ, bytes_of_wchars buffer)))"
proof -
  have "c_str = (\<lambda>s. s @ [0])"
    by (rule ext) (simp add: c_str_def)
  then show ?thesis
    using multiString_buffer_eq [of multiString]
      SetValue_multi_valid [of v hKey buffer b w valueName]
    by simp
qed

text \<open>
  The list \<^verbatim>\<open>["Ciao", "Hi"]\<close> and the empty list, written under the value name \<^verbatim>\<open>"V"\<close>.
\<close>

theorem multi_string_framing_witness:
  "multiString_buffer [[67, 105, 97, 111], [72, 105]] =
     Inr [67, 105, 97, 111, 0, 72, 105, 0, 0] \<and>
   (\<exists>w'. SetValue Win64 empty_world 1 [86]
            ((RegValue_ctor REG_MULTI_SZ)\<lparr>m_multiString := [[67, 105, 97, 111], [72, 105]]\<rparr>) =
            (Inr (), w') \<and>
          entries w' 1 [86] =
            Some (REG_MULTI_SZ,
                  [67, 0, 105, 0, 97, 0, 111, 0, 0, 0, 72, 0, 105, 0, 0, 0, 0, 0])) \<and>
   multiString_buffer [] = Inr [0, 0] \<and>
   (\<exists>w'. SetValue Win64 empty_world 1 [86]
            ((RegValue_ctor REG_MULTI_SZ)\<lparr>m_multiString := []\<rparr>) = (Inr (), w') \<and>
          entries w' 1 [86] = Some (REG_MULTI_SZ, [0, 0, 0, 0]))"
  using multi_string_framing [of "[[67, 105, 97, 111], [72, 105]]"
      "(RegValue_ctor REG_MULTI_SZ)\<lparr>m_multiString := [[67, 105, 97, 111], [72, 105]]\<rparr>"
      1 "[67, 105, 97, 111, 0, 72, 105, 0, 0]" Win64 empty_world "[86]"]
    multi_string_framing [of "[]" "(RegValue_ctor REG_MULTI_SZ)\<lparr>m_multiString := []\<rparr>"
      1 "[0, 0]" Win64 empty_world "[86]"]
  by (simp add: GetType_def RegValue_ctor_def nullptr_def DWORD_max_eq)

subsection \<open>Handle ownership\<close>

lemma Close_invalid: "\<not> IsValid k \<Longrightarrow> Close k w = (k, w)"
  by (simp add: Close_def IsValid_def)

lemma Close_result_invalid: "\<not> IsValid (fst (Close k w))"
  by (simp add: Close_def IsValid_def)

lemma Close_trace:
  "trace (snd (Close k w)) = trace w @ (if IsValid k then [Call_RegCloseKey (m_hKey k)] else [])"
  by (simp add: Close_def IsValid_def RegCloseKey_def called_def)

lemma move_assign_distinct:
  assumes "other \<noteq> this"
  shows "fst (RegKey_move_assign this other h w) other = (h other)\<lparr>m_hKey := nullptr\<rparr>"
    and "m_hKey (fst (RegKey_move_assign this other h w) this) = m_hKey (h other)"
    and "snd (RegKey_move_assign this other h w) = snd (Close (h this) w)"
  using assms by (simp_all add: RegKey_move_assign_def Let_def split: prod.splits)

text \<open>
  C8, as stated, fails for a move assignment of a handle to itself: the guard
  \<^verbatim>\<open>if (&other != this)\<close> skips the transfer, so the source, which is also the target,
  still wraps its key and reports itself valid.
\<close>

theorem moved_from_handle_counterexample:
  "IsValid (fst (RegKey_move_assign 0 0 (default_heap(0 := RegKey_ctor 5)) empty_world) 0)"
  by (simp add: RegKey_move_assign_def IsValid_def RegKey_ctor_def nullptr_def)

text \<open>
  C8, amended. After move construction, and after move assignment from a different
  object, the source reports itself invalid, closing it changes neither the object nor the
  world, and the target wraps the key the source had. A move assignment of an object to
  itself changes nothing. After \<open>Close\<close> a handle is invalid, and a second \<open>Close\<close>
  changes nothing: one \<open>RegCloseKey\<close> call is made for a valid handle, none for an invalid
  one.
\<close>

theorem handle_ownership:
  "\<not> IsValid (snd (RegKey_move_ctor other)) \<and>
   Close (snd (RegKey_move_ctor other)) w = (snd (RegKey_move_ctor other), w) \<and>
   Get (fst (RegKey_move_ctor other)) = Get other \<and>
   (src \<noteq> this \<longrightarrow>
      \<not> IsValid (fst (RegKey_move_assign this src h w) src) \<and>
      Close_at src (fst (RegKey_move_assign this src h w)) (snd (RegKey_move_assign this src h w)) =
        RegKey_move_assign this src h w \<and>
      Get (fst (RegKey_move_assign this src h w) this) = Get (h src)) \<and>
   RegKey_move_assign this this h w = (h, w) \<and>
   \<not> IsValid (fst (Close k w)) \<and>
   Close (fst (Close k w)) (snd (Close k w)) = Close k w \<and>
   trace (snd (Close k w)) =
     trace w @ (if IsValid k then [Call_RegCloseKey (Get k)] else [])"
proof -
  have ctor: "\<not> IsValid (snd (RegKey_move_ctor other))"
    by (simp add: RegKey_move_ctor_def IsValid_def)
  have get: "Get (fst (RegKey_move_ctor other)) = Get other"
    by (simp add: RegKey_move_ctor_def Get_def)
  have assign: "\<not> IsValid (fst (RegKey_move_assign this src h w) src) \<and>
      Close_at src (fst (RegKey_move_assign this src h w)) (snd (RegKey_move_assign this src h w)) =
        RegKey_move_assign this src h w \<and>
      Get (fst (RegKey_move_assign this src h w) this) = Get (h src)" if "src \<noteq> this"
  proof -
    let ?h' = "fst (RegKey_move_assign this src h w)"
    have inv: "\<not> IsValid (?h' src)"
      using move_assign_distinct(1) [OF that] by (simp add: IsValid_def)
    have "Close_at src ?h' (snd (RegKey_move_assign this src h w)) =
        (?h', snd (RegKey_move_assign this src h w))"
      by (simp add: Close_at_def Close_invalid [OF inv])
    then show ?thesis
      using inv move_assign_distinct(2) [OF that] by (simp add: Get_def)
  qed
  have self: "RegKey_move_assign this this h w = (h, w)"
    by (simp add: RegKey_move_assign_def)
  have twice: "Close (fst (Close k w)) (snd (Close k w)) = Close k w"
    using Close_invalid [OF Close_result_invalid] by simp
  show ?thesis
    using ctor Close_invalid [OF ctor] get assign self Close_result_invalid twice Close_trace
    by (simp add: Get_def)
qed

text \<open>
  The key 5 held at address 1 is moved to address 0; and the key 5 is closed twice, with
  one native call in all.
\<close>

theorem handle_ownership_witness:
  "\<not> IsValid (fst (RegKey_move_assign 0 1 (default_heap(1 := RegKey_ctor 5)) empty_world) 1) \<and>
   Get (fst (RegKey_move_assign 0 1 (default_heap(1 := RegKey_ctor 5)) empty_world) 0) = 5 \<and>
   trace (snd (Close (RegKey_ctor 5) empty_world)) = [Call_RegCloseKey 5] \<and>
   trace (snd (Close (fst (Close (RegKey_ctor 5) empty_world))
                     (snd (Close (RegKey_ctor 5) empty_world)))) = [Call_RegCloseKey 5]"
  using handle_ownership [of "RegKey_ctor 5" empty_world 1 0 "default_heap(1 := RegKey_ctor 5)"
      "RegKey_ctor 5"]
  by (simp add: Get_def RegKey_ctor_def IsValid_def nullptr_def empty_world_def)

subsection \<open>Dispatch on the value kind\<close>

lemma QueryValue_unsupported:
  assumes "RegQueryValueEx_info w hKey valueName = ((ERROR_SUCCESS, valueType, dataSize), w')"
    and "valueType \<notin> supported_kinds"
  shows "QueryValue w hKey valueName = (Inl invalid_argument, w')"
  using assms by (simp add: QueryValue_def supported_kinds_def)

lemma RegQueryValueEx_info_world:
  "snd (RegQueryValueEx_info w hKey valueName) =
     w\<lparr>trace := trace w @ [Call_RegQueryValueEx hKey valueName None]\<rparr>"
  by (simp add: RegQueryValueEx_info_def called_def Let_def split: option.splits)

lemma SetValue_unsupported:
  assumes "GetType v \<notin> supported_kinds"
  shows "SetValue b w hKey valueName v = (Inl invalid_argument, w)"
  using assms by (simp add: SetValue_def supported_kinds_def)

text \<open>
  C9. When the store reports, with success, a kind outside the five supported ones,
  \<open>QueryValue\<close> fails with \<open>invalid_argument\<close>; the only native call it has made is the
  query for type and size, with no data buffer, and the entries are as before. When the
  value's own kind is outside the five, \<open>SetValue\<close> fails with \<open>invalid_argument\<close> and the
  world is as before: no native call is made.
\<close>

theorem unsupported_kind_dispatch:
  "(RegQueryValueEx_info w hKey valueName = ((ERROR_SUCCESS, valueType, dataSize), w') \<and>
    valueType \<notin> supported_kinds \<longrightarrow>
      QueryValue w hKey valueName = (Inl invalid_argument, w') \<and>
      entries w' = entries w \<and>
      trace w' = trace w @ [Call_RegQueryValueEx hKey valueName None]) \<and>
   (GetType v \<notin> supported_kinds \<longrightarrow>
      SetValue b w hKey valueName v = (Inl invalid_argument, w))"
proof -
  have "entries w' = entries w \<and> trace w' = trace w @ [Call_RegQueryValueEx hKey valueName None]"
    if "RegQueryValueEx_info w hKey valueName = ((ERROR_SUCCESS, valueType, dataSize), w')"
    using RegQueryValueEx_info_world [of w hKey valueName] that by simp
  then show ?thesis
    using QueryValue_unsupported [of w hKey valueName valueType dataSize w']
      SetValue_unsupported [of v b w hKey valueName]
    by blast
qed

text \<open>
  An entry of kind 11 (a 64-bit number) with eight bytes of data is not read, and a value
  of kind \<open>REG_NONE\<close> is not written.
\<close>

theorem unsupported_kind_dispatch_witness:
  "QueryValue (single_entry 1 [86] 11 [1, 2, 3, 4, 5, 6, 7, 8]) 1 [86] =
     (Inl invalid_argument,
      (single_entry 1 [86] 11 [1, 2, 3, 4, 5, 6, 7, 8])
        \<lparr>trace := [Call_RegQueryValueEx 1 [86] None]\<rparr>) \<and>
   SetValue Win64 (single_entry 1 [86] 11 [1, 2, 3, 4, 5, 6, 7, 8]) 1 [86] RegValue_default =
     (Inl invalid_argument, single_entry 1 [86] 11 [1, 2, 3, 4, 5, 6, 7, 8])"
  using unsupported_kind_dispatch [of "single_entry 1 [86] 11 [1, 2, 3, 4, 5, 6, 7, 8]"
      1 "[86]" 11 8
      "(single_entry 1 [86] 11 [1, 2, 3, 4, 5, 6, 7, 8])
        \<lparr>trace := [Call_RegQueryValueEx 1 [86] None]\<rparr>"
      RegValue_default Win64]
  by (simp add: RegQueryValueEx_info_def called_def single_entry_def nullptr_def
      supported_kinds_def REG_defs GetType_def RegValue_default_def)

subsection \<open>Expansion of environment strings\<close>

text \<open>
  C10. The function has no failure branch: its result is always a string. When the
  sizing call returns zero the result is empty; when the filling call returns zero the
  result is empty; and when the filling call writes a text and its terminator into the
  buffer and returns their length, the result is that text without the terminator.
\<close>

theorem expand_never_fails:
  "(sizing source = 0 \<longrightarrow> ExpandEnvironmentStrings sizing filling source = []) \<and>
   (fst (filling source (sizing source)) = 0 \<longrightarrow>
      ExpandEnvironmentStrings sizing filling source = []) \<and>
   (sizing source \<noteq> 0 \<and> filling source (sizing source) = (len, text @ [0]) \<and>
    len = of_nat (length text + 1) \<and> length text + 1 \<le> unat (sizing source) \<longrightarrow>
      ExpandEnvironmentStrings sizing filling source = text)"
proof -
  have success: "ExpandEnvironmentStrings sizing filling source = text"
    if "sizing source \<noteq> 0" and fill: "filling source (sizing source) = (len, text @ [0])"
      and len: "len = of_nat (length text + 1)" and fits: "length text + 1 \<le> unat (sizing source)"
  proof -
    have unat_len: "unat len = length text + 1"
      unfolding len using fits by (rule le_unat_uoi)
    then have "len \<noteq> 0"
      by auto
    with unat_len have "len \<noteq> 0" and "unat (len - 1) = length text"
      by (simp_all add: unat_minus_one)
    then show ?thesis
      using that(1) fill fits
      by (simp add: ExpandEnvironmentStrings_def resize_def Let_def)
  qed
  show ?thesis
    using success
    by (auto simp: ExpandEnvironmentStrings_def Let_def split: prod.splits)
qed

text \<open>
  The source \<^verbatim>\<open>"%X%"\<close>: a failing sizing call, a failing filling call, and an expansion to
  \<^verbatim>\<open>"C:"\<close>.
\<close>

theorem expand_never_fails_witness:
  "ExpandEnvironmentStrings (\<lambda>s. 0) (\<lambda>s n. (3, [67, 58, 0])) [37, 88, 37] = [] \<and>
   ExpandEnvironmentStrings (\<lambda>s. 3) (\<lambda>s n. (0, [])) [37, 88, 37] = [] \<and>
   ExpandEnvironmentStrings (\<lambda>s. 3) (\<lambda>s n. (3, [67, 58, 0])) [37, 88, 37] = [67, 58]"
  using expand_never_fails [of "\<lambda>s. 0" "[37, 88, 37]" "\<lambda>s n. (3, [67, 58, 0])" 3 "[67, 58]"]
    expand_never_fails [of "\<lambda>s. 3" "[37, 88, 37]" "\<lambda>s n. (0, [])" 0 "[]"]
    expand_never_fails [of "\<lambda>s. 3" "[37, 88, 37]" "\<lambda>s n. (3, [67, 58, 0])" 3 "[67, 58]"]
  by simp

subsection \<open>Memory images\<close>

lemma wchar_split_join:
  "ucast (ucast c :: BYTE) OR push_bit 8 (ucast (ucast (drop_bit 8 c) :: BYTE)) = (c :: wchar_t)"
  by (rule bit_word_eqI) (auto simp: bit_simps)

lemma dword_of_bytes_of_dword: "dword_of_bytes (bytes_of_dword d) = d"
  unfolding dword_of_bytes_def bytes_of_dword_def
  apply simp
  apply (rule bit_word_eqI)
  subgoal for n
    by (cases "n < 8"; cases "n < 16"; cases "n < 24"; simp add: bit_simps not_less; arith)
  done

lemma wchars_of_bytes_of_wchars_append:
  "wchars_of_bytes (bytes_of_wchars ws @ bs) = ws @ wchars_of_bytes bs"
  by (induction ws) (simp_all add: wchar_split_join)

lemma bytes_of_wchars_append:
  "bytes_of_wchars (xs @ ys) = bytes_of_wchars xs @ bytes_of_wchars ys"
  by (induction xs) simp_all

lemma bytes_of_wchars_replicate0: "bytes_of_wchars (replicate n 0) = replicate (2 * n) 0"
  by (induction n) simp_all

lemma wchars_of_bytes_replicate0: "wchars_of_bytes (replicate (2 * n) 0) = replicate n 0"
  by (induction n) simp_all

subsection \<open>Reading an entry that exists\<close>

lemma entries_called: "entries (called w c) = entries w"
  by (simp add: called_def)

lemma RegQueryValueEx_info_found:
  assumes "hKey \<noteq> nullptr" "entries w hKey valueName = Some (ty, dat)"
  shows "RegQueryValueEx_info w hKey valueName =
    ((ERROR_SUCCESS, ty, of_nat (length dat)), called w (Call_RegQueryValueEx hKey valueName None))"
  using assms by (simp add: RegQueryValueEx_info_def Let_def)

lemma RegQueryValueEx_data_found:
  assumes "hKey \<noteq> nullptr" "entries w hKey valueName = Some (ty, dat)" "length dat \<le> unat cb"
  shows "RegQueryValueEx_data w hKey valueName mem cb =
    ((ERROR_SUCCESS, dat @ drop (length dat) mem, of_nat (length dat)),
     called w (Call_RegQueryValueEx hKey valueName (Some (unat cb))))"
  using assms by (simp add: RegQueryValueEx_data_def Let_def)

lemma unat_half:
  assumes "2 * n \<le> DWORD_max"
  shows "unat ((of_nat (2 * n) :: DWORD) div 2) = n"
proof -
  have "unat (of_nat (2 * n) :: DWORD) = 2 * n"
    by (rule unat_of_nat_DWORD [OF assms])
  then show ?thesis
    unfolding unat_div by simp
qed

lemma unat_half_minus_one:
  assumes "2 * n \<le> DWORD_max" "n \<noteq> 0"
  shows "unat ((of_nat (2 * n) :: DWORD) div 2 - 1) = n - 1"
proof -
  define x :: DWORD where "x = of_nat (2 * n) div 2"
  have x: "unat x = n"
    unfolding x_def by (rule unat_half [OF assms(1)])
  then have "x \<noteq> 0"
    using assms(2) by auto
  then have "unat (x - 1) = unat x - 1"
    by (rule unat_minus_one)
  then show ?thesis
    unfolding x unfolding x_def .
qed

text \<open>The string buffer after the store has copied the units \<open>us\<close> into it.\<close>

lemma string_buffer_filled:
  "take (length (resize [] (length us) :: wstring))
     (wchars_of_bytes (bytes_of_wchars us @
        drop (length (bytes_of_wchars us))
          (bytes_of_wchars (c_str (resize [] (length us)))))) = us"
proof -
  have "bytes_of_wchars (c_str (resize [] (length us))) =
      replicate (2 * length us) 0 @ [0, 0]"
    by (simp add: c_str_def resize_def bytes_of_wchars_replicate0
        bytes_of_wchars_append)
  then show ?thesis
    by (simp add: length_bytes_of_wchars wchars_of_bytes_of_wchars_append resize_def)
qed

lemma ReadValueStringInternal_found:
  assumes "hKey \<noteq> nullptr" "entries w hKey valueName = Some (ty, bytes_of_wchars us)"
    "us \<noteq> []" "2 * length us \<le> DWORD_max"
  shows "fst (ReadValueStringInternal w hKey valueName (of_nat (2 * length us))) =
    Inr ((RegValue_ctor REG_SZ)\<lparr>m_string := (if last us = 0 then butlast us else us)\<rparr>)"
proof -
  define valueSize :: DWORD where "valueSize = of_nat (2 * length us)"
  have vs: "unat valueSize = 2 * length us"
    unfolding valueSize_def by (rule unat_of_nat_DWORD [OF assms(4)])
  have half: "unat (valueSize div 2) = length us"
    unfolding valueSize_def by (rule unat_half [OF assms(4)])
  have idx: "unat (valueSize div 2 - 1) = length us - 1"
    unfolding valueSize_def using assms(3) by (intro unat_half_minus_one [OF assms(4)]) simp
  have query: "RegQueryValueEx_data w hKey valueName mem valueSize =
      ((ERROR_SUCCESS, bytes_of_wchars us @ drop (length (bytes_of_wchars us)) mem,
        of_nat (length (bytes_of_wchars us))),
       called w (Call_RegQueryValueEx hKey valueName (Some (unat valueSize))))" for mem
    using RegQueryValueEx_data_found [OF assms(1,2), of valueSize mem] vs
    by (simp add: length_bytes_of_wchars)
  have at: "wstring_at us (length us - 1) = Inr (last us)"
    using assms(3) by (simp add: wstring_at_def last_conv_nth)
  have cut: "resize us (length us - 1) = butlast us"
    by (simp add: resize_def butlast_conv_take)
  have "fst (ReadValueStringInternal w hKey valueName valueSize) =
    Inr ((RegValue_ctor REG_SZ)\<lparr>m_string := (if last us = 0 then butlast us else us)\<rparr>)"
    unfolding ReadValueStringInternal_def Let_def half idx query prod.case string_buffer_filled
      at cut
    by (simp add: assign_def String_ref_def RegValue_ctor_def)
  then show ?thesis
    unfolding valueSize_def .
qed


lemma ReadValueExpandStringInternal_found:
  assumes "hKey \<noteq> nullptr" "entries w hKey valueName = Some (ty, bytes_of_wchars us)"
    "us \<noteq> []" "2 * length us \<le> DWORD_max"
  shows "fst (ReadValueExpandStringInternal w hKey valueName (of_nat (2 * length us))) =
    Inr ((RegValue_ctor REG_EXPAND_SZ)
           \<lparr>m_expandString := (if last us = 0 then butlast us else us)\<rparr>)"
proof -
  define valueSize :: DWORD where "valueSize = of_nat (2 * length us)"
  have vs: "unat valueSize = 2 * length us"
    unfolding valueSize_def by (rule unat_of_nat_DWORD [OF assms(4)])
  have half: "unat (valueSize div 2) = length us"
    unfolding valueSize_def by (rule unat_half [OF assms(4)])
  have idx: "unat (valueSize div 2 - 1) = length us - 1"
    unfolding valueSize_def using assms(3) by (intro unat_half_minus_one [OF assms(4)]) simp
  have query: "RegQueryValueEx_data w hKey valueName mem valueSize =
      ((ERROR_SUCCESS, bytes_of_wchars us @ drop (length (bytes_of_wchars us)) mem,
        of_nat (length (bytes_of_wchars us))),
       called w (Call_RegQueryValueEx hKey valueName (Some (unat valueSize))))" for mem
    using RegQueryValueEx_data_found [OF assms(1,2), of valueSize mem] vs
    by (simp add: length_bytes_of_wchars)
  have at: "wstring_at us (length us - 1) = Inr (last us)"
    using assms(3) by (simp add: wstring_at_def last_conv_nth)
  have cut: "resize us (length us - 1) = butlast us"
    by (simp add: resize_def butlast_conv_take)
  have "fst (ReadValueExpandStringInternal w hKey valueName valueSize) =
    Inr ((RegValue_ctor REG_EXPAND_SZ)
           \<lparr>m_expandString := (if last us = 0 then butlast us else us)\<rparr>)"
    unfolding ReadValueExpandStringInternal_def Let_def half idx query prod.case
      string_buffer_filled at cut
    by (simp add: assign_def ExpandString_ref_def RegValue_ctor_def)
  then show ?thesis
    unfolding valueSize_def .
qed

lemma ReadValueBinaryInternal_found:
  assumes "hKey \<noteq> nullptr" "entries w hKey valueName = Some (ty, dat)"
    "length dat \<le> DWORD_max"
  shows "fst (ReadValueBinaryInternal w hKey valueName (of_nat (length dat))) =
    Inr ((RegValue_ctor REG_BINARY)\<lparr>m_binary := dat\<rparr>)"
proof -
  define valueSize :: DWORD where "valueSize = of_nat (length dat)"
  have vs: "unat valueSize = length dat"
    unfolding valueSize_def by (rule unat_of_nat_DWORD [OF assms(3)])
  have query: "RegQueryValueEx_data w hKey valueName mem valueSize =
      ((ERROR_SUCCESS, dat @ drop (length dat) mem, of_nat (length dat)),
       called w (Call_RegQueryValueEx hKey valueName (Some (unat valueSize))))" for mem
    using RegQueryValueEx_data_found [OF assms(1,2), of valueSize mem] vs by simp
  have "fst (ReadValueBinaryInternal w hKey valueName valueSize) =
    Inr ((RegValue_ctor REG_BINARY)\<lparr>m_binary := dat\<rparr>)"
    unfolding ReadValueBinaryInternal_def Let_def vs query prod.case
    by (simp add: assign_def Binary_ref_def RegValue_ctor_def)
  then show ?thesis
    unfolding valueSize_def .
qed

lemma length_bytes_of_dword: "length (bytes_of_dword d) = 4"
  by (simp add: bytes_of_dword_def)

lemma ReadValueDwordInternal_found:
  assumes "hKey \<noteq> nullptr" "entries w hKey valueName = Some (ty, bytes_of_dword d)"
  shows "fst (ReadValueDwordInternal w hKey valueName) =
    Inr ((RegValue_ctor REG_DWORD)\<lparr>m_dword := d\<rparr>)"
proof -
  have query: "RegQueryValueEx_data w hKey valueName mem 4 =
      ((ERROR_SUCCESS, bytes_of_dword d @ drop (length (bytes_of_dword d)) mem,
        of_nat (length (bytes_of_dword d))),
       called w (Call_RegQueryValueEx hKey valueName (Some (unat (4 :: DWORD)))))" for mem
    by (rule RegQueryValueEx_data_found [OF assms(1,2)]) (simp add: length_bytes_of_dword)
  have "bytes_of_dword d @ drop (length (bytes_of_dword d)) (bytes_of_dword 0) =
      bytes_of_dword d"
    by (simp add: length_bytes_of_dword)
  then show ?thesis
    unfolding ReadValueDwordInternal_def Let_def query prod.case
    by (simp add: dword_of_bytes_of_dword assign_def Dword_ref_def RegValue_ctor_def)
qed

lemma wcslen_string: "0 \<notin> set s \<Longrightarrow> wcslen (s @ 0 # rest) = Inr (length s)"
  by (induction s) auto

text \<open>
  Scanning from the start of a run of non-empty, zero-free strings, each with its
  terminator, up to the zero unit that follows the run.
\<close>

lemma loop_strings:
  assumes "\<forall>s \<in> set xs. s \<noteq> [] \<and> 0 \<notin> set s"
  shows "ReadValueMultiStringInternal_loop (pre @ concat (map c_str xs) @ 0 # rest)
           (length pre) acc = Inr (acc @ xs)"
  using assms
proof (induction xs arbitrary: pre acc)
  case Nil
  show ?case
    by (subst ReadValueMultiStringInternal_loop.simps) (simp add: vector_at_def)
next
  case (Cons s ss)
  let ?after = "concat (map c_str ss) @ 0 # rest"
  let ?buffer = "pre @ concat (map c_str (s # ss)) @ 0 # rest"
  from Cons.prems have s: "s \<noteq> []" "0 \<notin> set s" and ss: "\<forall>s \<in> set ss. s \<noteq> [] \<and> 0 \<notin> set s"
    by simp_all
  have buffer: "?buffer = pre @ s @ 0 # ?after"
    by (simp add: c_str_def)
  have first: "vector_at ?buffer (length pre) = Inr (hd s)"
    unfolding buffer using s(1) by (cases s) (simp_all add: vector_at_def nth_append)
  have nonzero: "hd s \<noteq> 0"
    using s by (cases s) auto
  have len: "wcslen (drop (length pre) ?buffer) = Inr (length s)"
    unfolding buffer using wcslen_string [OF s(2)] by simp
  have str: "take (length s) (drop (length pre) ?buffer) = s"
    unfolding buffer by simp
  have "ReadValueMultiStringInternal_loop ?buffer (length pre) acc =
      ReadValueMultiStringInternal_loop ?buffer (length pre + (length s + 1)) (acc @ [s])"
    by (subst ReadValueMultiStringInternal_loop.simps) (simp only: first len str nonzero
        sum.case if_True not_False_eq_True)
  also have "\<dots> = ReadValueMultiStringInternal_loop ((pre @ c_str s) @ ?after)
      (length (pre @ c_str s)) (acc @ [s])"
    by (simp add: c_str_def)
  also have "\<dots> = Inr ((acc @ [s]) @ ss)"
    by (rule Cons.IH [OF ss])
  finally show ?case by simp
qed

lemma ReadValueMultiStringInternal_found:
  assumes "hKey \<noteq> nullptr" "entries w hKey valueName = Some (ty, bytes_of_wchars us)"
    "us = concat (map c_str xs) @ 0 # rest" "\<forall>s \<in> set xs. s \<noteq> [] \<and> 0 \<notin> set s"
    "2 * length us \<le> DWORD_max"
  shows "fst (ReadValueMultiStringInternal w hKey valueName (of_nat (2 * length us))) =
    Inr ((RegValue_ctor REG_MULTI_SZ)\<lparr>m_multiString := xs\<rparr>)"
proof -
  define valueSize :: DWORD where "valueSize = of_nat (2 * length us)"
  have vs: "unat valueSize = 2 * length us"
    unfolding valueSize_def by (rule unat_of_nat_DWORD [OF assms(5)])
  have query: "RegQueryValueEx_data w hKey valueName mem valueSize =
      ((ERROR_SUCCESS, bytes_of_wchars us @ drop (length (bytes_of_wchars us)) mem,
        of_nat (length (bytes_of_wchars us))),
       called w (Call_RegQueryValueEx hKey valueName (Some (unat valueSize))))" for mem
    using RegQueryValueEx_data_found [OF assms(1,2), of valueSize mem] vs
    by (simp add: length_bytes_of_wchars)
  have filled: "wchars_of_bytes (bytes_of_wchars us @
      drop (length (bytes_of_wchars us)) (bytes_of_wchars (replicate (2 * length us) 0))) =
      us @ replicate (length us) 0"
    using wchars_of_bytes_replicate0 [of "length us"]
    by (simp add: bytes_of_wchars_replicate0 length_bytes_of_wchars
        wchars_of_bytes_of_wchars_append)
  have scan: "ReadValueMultiStringInternal_loop (us @ replicate (length us) 0) 0 [] = Inr xs"
    using loop_strings [OF assms(4), of "[]" "rest @ replicate (length us) 0" "[]"]
    unfolding assms(3) by simp
  have "fst (ReadValueMultiStringInternal w hKey valueName valueSize) =
    Inr ((RegValue_ctor REG_MULTI_SZ)\<lparr>m_multiString := xs\<rparr>)"
    unfolding ReadValueMultiStringInternal_def Let_def vs query prod.case filled scan
    by (simp add: assign_def MultiString_ref_def RegValue_ctor_def)
  then show ?thesis
    unfolding valueSize_def .
qed


lemma QueryValue_found:
  assumes "hKey \<noteq> nullptr" "entries w hKey valueName = Some (ty, dat)"
  shows "\<exists>w'. entries w' = entries w \<and>
    QueryValue w hKey valueName =
      (if ty = REG_BINARY then ReadValueBinaryInternal w' hKey valueName (of_nat (length dat))
       else if ty = REG_DWORD then ReadValueDwordInternal w' hKey valueName
       else if ty = REG_SZ then ReadValueStringInternal w' hKey valueName (of_nat (length dat))
       else if ty = REG_EXPAND_SZ
         then ReadValueExpandStringInternal w' hKey valueName (of_nat (length dat))
       else if ty = REG_MULTI_SZ
         then ReadValueMultiStringInternal w' hKey valueName (of_nat (length dat))
       else (Inl invalid_argument, w'))"
  unfolding QueryValue_def RegQueryValueEx_info_found [OF assms]
  by (intro exI [of _ "called w (Call_RegQueryValueEx hKey valueName None)"])
    (simp add: entries_called ERROR_defs)

lemma QueryValue_dword:
  assumes "hKey \<noteq> nullptr" "entries w hKey valueName = Some (REG_DWORD, bytes_of_dword d)"
  shows "fst (QueryValue w hKey valueName) = Inr ((RegValue_ctor REG_DWORD)\<lparr>m_dword := d\<rparr>)"
proof -
  obtain w' where w': "entries w' = entries w"
    "QueryValue w hKey valueName = ReadValueDwordInternal w' hKey valueName"
    using QueryValue_found [OF assms] by (auto simp: REG_defs)
  show ?thesis
    unfolding w'(2) using assms(2) by (intro ReadValueDwordInternal_found [OF assms(1)]) (simp add: w'(1))
qed

lemma QueryValue_binary:
  assumes "hKey \<noteq> nullptr" "entries w hKey valueName = Some (REG_BINARY, dat)"
    "length dat \<le> DWORD_max"
  shows "fst (QueryValue w hKey valueName) = Inr ((RegValue_ctor REG_BINARY)\<lparr>m_binary := dat\<rparr>)"
proof -
  obtain w' where w': "entries w' = entries w"
    "QueryValue w hKey valueName = ReadValueBinaryInternal w' hKey valueName (of_nat (length dat))"
    using QueryValue_found [OF assms(1,2)] by (auto simp: REG_defs)
  have "entries w' hKey valueName = Some (REG_BINARY, dat)"
    using assms(2) by (simp add: w'(1))
  then show ?thesis
    unfolding w'(2) by (rule ReadValueBinaryInternal_found [OF assms(1) _ assms(3)])
qed

lemma QueryValue_string:
  assumes "hKey \<noteq> nullptr" "entries w hKey valueName = Some (REG_SZ, bytes_of_wchars us)"
    "us \<noteq> []" "2 * length us \<le> DWORD_max"
  shows "fst (QueryValue w hKey valueName) =
    Inr ((RegValue_ctor REG_SZ)\<lparr>m_string := (if last us = 0 then butlast us else us)\<rparr>)"
proof -
  obtain w' where w': "entries w' = entries w"
    "QueryValue w hKey valueName =
       ReadValueStringInternal w' hKey valueName (of_nat (length (bytes_of_wchars us)))"
    using QueryValue_found [OF assms(1,2)] by (auto simp: REG_defs)
  have "entries w' hKey valueName = Some (REG_SZ, bytes_of_wchars us)"
    using assms(2) by (simp add: w'(1))
  then show ?thesis
    unfolding w'(2) length_bytes_of_wchars
    by (rule ReadValueStringInternal_found [OF assms(1) _ assms(3,4)])
qed

lemma QueryValue_expand:
  assumes "hKey \<noteq> nullptr"
    "entries w hKey valueName = Some (REG_EXPAND_SZ, bytes_of_wchars us)"
    "us \<noteq> []" "2 * length us \<le> DWORD_max"
  shows "fst (QueryValue w hKey valueName) =
    Inr ((RegValue_ctor REG_EXPAND_SZ)
           \<lparr>m_expandString := (if last us = 0 then butlast us else us)\<rparr>)"
proof -
  obtain w' where w': "entries w' = entries w"
    "QueryValue w hKey valueName =
       ReadValueExpandStringInternal w' hKey valueName (of_nat (length (bytes_of_wchars us)))"
    using QueryValue_found [OF assms(1,2)] by (auto simp: REG_defs)
  have "entries w' hKey valueName = Some (REG_EXPAND_SZ, bytes_of_wchars us)"
    using assms(2) by (simp add: w'(1))
  then show ?thesis
    unfolding w'(2) length_bytes_of_wchars
    by (rule ReadValueExpandStringInternal_found [OF assms(1) _ assms(3,4)])
qed

lemma QueryValue_multi:
  assumes "hKey \<noteq> nullptr"
    "entries w hKey valueName = Some (REG_MULTI_SZ, bytes_of_wchars us)"
    "us = concat (map c_str xs) @ 0 # rest" "\<forall>s \<in> set xs. s \<noteq> [] \<and> 0 \<notin> set s"
    "2 * length us \<le> DWORD_max"
  shows "fst (QueryValue w hKey valueName) =
    Inr ((RegValue_ctor REG_MULTI_SZ)\<lparr>m_multiString := xs\<rparr>)"
proof -
  obtain w' where w': "entries w' = entries w"
    "QueryValue w hKey valueName =
       ReadValueMultiStringInternal w' hKey valueName (of_nat (length (bytes_of_wchars us)))"
    using QueryValue_found [OF assms(1,2)] by (auto simp: REG_defs)
  have "entries w' hKey valueName = Some (REG_MULTI_SZ, bytes_of_wchars us)"
    using assms(2) by (simp add: w'(1))
  then show ?thesis
    unfolding w'(2) length_bytes_of_wchars
    by (rule ReadValueMultiStringInternal_found [OF assms(1) _ assms(3,4,5)])
qed


subsection \<open>Writing on a valid handle\<close>

lemma SetValue_dword_valid:
  assumes "GetType v = REG_DWORD" "hKey \<noteq> nullptr"
  shows "\<exists>w'. SetValue b w hKey valueName v = (Inr (), w') \<and>
           entries w' hKey valueName = Some (REG_DWORD, bytes_of_dword (m_dword v))"
proof -
  obtain w' where w': "RegSetValueEx w hKey valueName REG_DWORD (bytes_of_dword (m_dword v)) 4 =
      (ERROR_SUCCESS, w')"
    "entries w' hKey valueName =
       Some (REG_DWORD, take (unat (4 :: DWORD)) (bytes_of_dword (m_dword v)))"
    using RegSetValueEx_valid [OF assms(2)] by blast
  have "SetValue b w hKey valueName v = (Inr (), w')"
    using assms(1) w'(1)
    by (simp add: SetValue_def WriteValueDwordInternal_def Dword_def GetType_def REG_defs)
  then show ?thesis using w'(2) by (simp add: length_bytes_of_dword)
qed

lemma SetValue_string_valid:
  assumes "GetType v = REG_SZ" "hKey \<noteq> nullptr" "(length (m_string v) + 1) * 2 \<le> DWORD_max"
  shows "\<exists>w'. SetValue b w hKey valueName v = (Inr (), w') \<and>
           entries w' hKey valueName = Some (REG_SZ, bytes_of_wchars (c_str (m_string v)))"
proof -
  define cb :: DWORD where "cb = of_nat ((length (m_string v) + 1) * 2)"
  have cast: "SafeSizeToDwordCast b ((length (m_string v) + 1) * 2) = Inr cb"
    unfolding cb_def by (rule SafeSizeToDwordCast_fits [OF assms(3)])
  have "unat cb = (length (m_string v) + 1) * 2"
    unfolding cb_def by (rule unat_of_nat_DWORD [OF assms(3)])
  then have all: "take (unat cb) (bytes_of_wchars (c_str (m_string v))) =
      bytes_of_wchars (c_str (m_string v))"
    by (simp add: length_bytes_of_wchars length_c_str)
  obtain w' where w': "RegSetValueEx w hKey valueName REG_SZ
      (bytes_of_wchars (c_str (m_string v))) cb = (ERROR_SUCCESS, w')"
    "entries w' hKey valueName =
       Some (REG_SZ, take (unat cb) (bytes_of_wchars (c_str (m_string v))))"
    using RegSetValueEx_valid [OF assms(2)] by blast
  have "SetValue b w hKey valueName v = (Inr (), w')"
    using assms(1) w'(1) cast
    by (simp add: SetValue_def WriteValueStringInternal_def String_def GetType_def REG_defs)
  then show ?thesis using w'(2) all by simp
qed

lemma SetValue_expand_valid:
  assumes "GetType v = REG_EXPAND_SZ" "hKey \<noteq> nullptr"
    "(length (m_expandString v) + 1) * 2 \<le> DWORD_max"
  shows "\<exists>w'. SetValue b w hKey valueName v = (Inr (), w') \<and>
           entries w' hKey valueName =
             Some (REG_EXPAND_SZ, bytes_of_wchars (c_str (m_expandString v)))"
proof -
  define cb :: DWORD where "cb = of_nat ((length (m_expandString v) + 1) * 2)"
  have cast: "SafeSizeToDwordCast b ((length (m_expandString v) + 1) * 2) = Inr cb"
    unfolding cb_def by (rule SafeSizeToDwordCast_fits [OF assms(3)])
  have "unat cb = (length (m_expandString v) + 1) * 2"
    unfolding cb_def by (rule unat_of_nat_DWORD [OF assms(3)])
  then have all: "take (unat cb) (bytes_of_wchars (c_str (m_expandString v))) =
      bytes_of_wchars (c_str (m_expandString v))"
    by (simp add: length_bytes_of_wchars length_c_str)
  obtain w' where w': "RegSetValueEx w hKey valueName REG_EXPAND_SZ
      (bytes_of_wchars (c_str (m_expandString v))) cb = (ERROR_SUCCESS, w')"
    "entries w' hKey valueName =
       Some (REG_EXPAND_SZ, take (unat cb) (bytes_of_wchars (c_str (m_expandString v))))"
    using RegSetValueEx_valid [OF assms(2)] by blast
  have "SetValue b w hKey valueName v = (Inr (), w')"
    using assms(1) w'(1) cast
    by (simp add: SetValue_def WriteValueExpandStringInternal_def ExpandString_def GetType_def
        REG_defs)
  then show ?thesis using w'(2) all by simp
qed

lemma SetValue_binary_valid:
  assumes "GetType v = REG_BINARY" "hKey \<noteq> nullptr" "length (m_binary v) \<le> DWORD_max"
  shows "\<exists>w'. SetValue b w hKey valueName v = (Inr (), w') \<and>
           entries w' hKey valueName = Some (REG_BINARY, m_binary v)"
proof -
  define cb :: DWORD where "cb = of_nat (length (m_binary v))"
  have cast: "SafeSizeToDwordCast b (length (m_binary v)) = Inr cb"
    unfolding cb_def by (rule SafeSizeToDwordCast_fits [OF assms(3)])
  have "unat cb = length (m_binary v)"
    unfolding cb_def by (rule unat_of_nat_DWORD [OF assms(3)])
  then have all: "take (unat cb) (m_binary v) = m_binary v"
    by simp
  obtain w' where w': "RegSetValueEx w hKey valueName REG_BINARY (m_binary v) cb =
      (ERROR_SUCCESS, w')"
    "entries w' hKey valueName = Some (REG_BINARY, take (unat cb) (m_binary v))"
    using RegSetValueEx_valid [OF assms(2)] by blast
  have "SetValue b w hKey valueName v = (Inr (), w')"
    using assms(1) w'(1) cast
    by (simp add: SetValue_def WriteValueBinaryInternal_def Binary_def GetType_def)
  then show ?thesis using w'(2) all by simp
qed

subsection \<open>Round trip\<close>

lemma write_then_read_eq:
  assumes "SetValue b w hKey valueName v = (Inr (), w')"
  shows "write_then_read b w hKey valueName v = fst (QueryValue w' hKey valueName)"
  using assms by (simp add: write_then_read_def)

lemma round_trip_dword:
  assumes "hKey \<noteq> nullptr"
  shows "write_then_read b w hKey valueName ((RegValue_ctor REG_DWORD)\<lparr>m_dword := d\<rparr>) =
           Inr ((RegValue_ctor REG_DWORD)\<lparr>m_dword := d\<rparr>)"
proof -
  let ?v = "(RegValue_ctor REG_DWORD)\<lparr>m_dword := d\<rparr>"
  obtain w' where w': "SetValue b w hKey valueName ?v = (Inr (), w')"
    "entries w' hKey valueName = Some (REG_DWORD, bytes_of_dword d)"
    using SetValue_dword_valid [of ?v hKey b w valueName] assms
    by (auto simp: GetType_def RegValue_ctor_def)
  show ?thesis
    unfolding write_then_read_eq [OF w'(1)] by (rule QueryValue_dword [OF assms w'(2)])
qed

lemma round_trip_string:
  assumes "hKey \<noteq> nullptr" "(length s + 1) * 2 \<le> DWORD_max"
  shows "write_then_read b w hKey valueName ((RegValue_ctor REG_SZ)\<lparr>m_string := s\<rparr>) =
           Inr ((RegValue_ctor REG_SZ)\<lparr>m_string := s\<rparr>)"
proof -
  let ?v = "(RegValue_ctor REG_SZ)\<lparr>m_string := s\<rparr>"
  obtain w' where w': "SetValue b w hKey valueName ?v = (Inr (), w')"
    "entries w' hKey valueName = Some (REG_SZ, bytes_of_wchars (c_str s))"
    using SetValue_string_valid [of ?v hKey b w valueName] assms
    by (auto simp: GetType_def RegValue_ctor_def)
  have "fst (QueryValue w' hKey valueName) = Inr ((RegValue_ctor REG_SZ)
      \<lparr>m_string := (if last (c_str s) = 0 then butlast (c_str s) else c_str s)\<rparr>)"
    using assms(2) by (intro QueryValue_string [OF assms(1) w'(2)]) (simp_all add: c_str_def)
  then show ?thesis
    unfolding write_then_read_eq [OF w'(1)] by (simp add: c_str_def)
qed

lemma round_trip_expand:
  assumes "hKey \<noteq> nullptr" "(length s + 1) * 2 \<le> DWORD_max"
  shows "write_then_read b w hKey valueName
           ((RegValue_ctor REG_EXPAND_SZ)\<lparr>m_expandString := s\<rparr>) =
           Inr ((RegValue_ctor REG_EXPAND_SZ)\<lparr>m_expandString := s\<rparr>)"
proof -
  let ?v = "(RegValue_ctor REG_EXPAND_SZ)\<lparr>m_expandString := s\<rparr>"
  obtain w' where w': "SetValue b w hKey valueName ?v = (Inr (), w')"
    "entries w' hKey valueName = Some (REG_EXPAND_SZ, bytes_of_wchars (c_str s))"
    using SetValue_expand_valid [of ?v hKey b w valueName] assms
    by (auto simp: GetType_def RegValue_ctor_def)
  have "fst (QueryValue w' hKey valueName) = Inr ((RegValue_ctor REG_EXPAND_SZ)
      \<lparr>m_expandString := (if last (c_str s) = 0 then butlast (c_str s) else c_str s)\<rparr>)"
    using assms(2) by (intro QueryValue_expand [OF assms(1) w'(2)]) (simp_all add: c_str_def)
  then show ?thesis
    unfolding write_then_read_eq [OF w'(1)] by (simp add: c_str_def)
qed

lemma round_trip_binary:
  assumes "hKey \<noteq> nullptr" "length dat \<le> DWORD_max"
  shows "write_then_read b w hKey valueName ((RegValue_ctor REG_BINARY)\<lparr>m_binary := dat\<rparr>) =
           Inr ((RegValue_ctor REG_BINARY)\<lparr>m_binary := dat\<rparr>)"
proof -
  let ?v = "(RegValue_ctor REG_BINARY)\<lparr>m_binary := dat\<rparr>"
  obtain w' where w': "SetValue b w hKey valueName ?v = (Inr (), w')"
    "entries w' hKey valueName = Some (REG_BINARY, dat)"
    using SetValue_binary_valid [of ?v hKey b w valueName] assms
    by (auto simp: GetType_def RegValue_ctor_def)
  show ?thesis
    unfolding write_then_read_eq [OF w'(1)]
    by (rule QueryValue_binary [OF assms(1) w'(2) assms(2)])
qed

text \<open>
  What is read back from a written list: the strings before the first empty string, when
  none of them contains a zero unit.
\<close>

lemma round_trip_multi_general:
  assumes "hKey \<noteq> nullptr" "\<forall>s \<in> set xs. s \<noteq> [] \<and> 0 \<notin> set s"
    "multiString_buffer (xs @ ys) = Inr buffer" "length buffer * 2 \<le> DWORD_max"
    "ys = [] \<or> hd ys = []"
  shows "write_then_read b w hKey valueName
           ((RegValue_ctor REG_MULTI_SZ)\<lparr>m_multiString := xs @ ys\<rparr>) =
           Inr ((RegValue_ctor REG_MULTI_SZ)\<lparr>m_multiString := xs\<rparr>)"
proof -
  let ?v = "(RegValue_ctor REG_MULTI_SZ)\<lparr>m_multiString := xs @ ys\<rparr>"
  obtain w' where w': "SetValue b w hKey valueName ?v = (Inr (), w')"
    "entries w' hKey valueName = Some (REG_MULTI_SZ, bytes_of_wchars buffer)"
    using SetValue_multi_valid [of ?v hKey buffer b w valueName] assms(1,3,4)
    by (auto simp: GetType_def RegValue_ctor_def)
  have "\<exists>rest. buffer = concat (map c_str xs) @ 0 # rest"
  proof (cases ys)
    case Nil
    then show ?thesis
      using assms(3) multiString_buffer_eq [of xs] by (cases "xs = []") auto
  next
    case (Cons y ys')
    with assms(5) have "y = []" by simp
    then show ?thesis
      using assms(3) multiString_buffer_eq [of "xs @ ys"] Cons by (auto simp: c_str_def)
  qed
  then obtain rest where buffer: "buffer = concat (map c_str xs) @ 0 # rest" ..
  have "2 * length buffer \<le> DWORD_max"
    using assms(4) by (simp add: mult.commute)
  then show ?thesis
    unfolding write_then_read_eq [OF w'(1)]
    by (rule QueryValue_multi [OF assms(1) w'(2) buffer assms(2)])
qed


text \<open>
  C1, as stated, fails for the list of one empty string: it is written as two zero units,
  and the scan stops at the first of them, so the list of zero strings is read back.
\<close>

theorem list_with_empty_string_counterexample:
  "write_then_read Win64 empty_world 1 [86]
     ((RegValue_ctor REG_MULTI_SZ)\<lparr>m_multiString := [[]]\<rparr>) =
     Inr ((RegValue_ctor REG_MULTI_SZ)\<lparr>m_multiString := []\<rparr>) \<and>
   write_then_read Win64 empty_world 1 [86]
     ((RegValue_ctor REG_MULTI_SZ)\<lparr>m_multiString := [[]]\<rparr>) \<noteq>
     Inr ((RegValue_ctor REG_MULTI_SZ)\<lparr>m_multiString := [[]]\<rparr>)"
  using round_trip_multi_general [of 1 "[]" "[[]]" "[0, 0]" Win64 empty_world "[86]"]
  by (simp add: multiString_buffer_eq c_str_def nullptr_def DWORD_max_eq RegValue_ctor_def
      RegValue_default_def)

text \<open>
  C1, amended. On a valid handle, writing a value and reading the entry back returns the
  value written, for: every \<open>REG_DWORD\<close> value; every \<open>REG_SZ\<close> and \<open>REG_EXPAND_SZ\<close> string,
  the empty string and strings with zero units included, whose byte length with the
  terminator fits a \<^verbatim>\<open>DWORD\<close>; every \<open>REG_MULTI_SZ\<close> list, the empty list included, whose
  strings are non-empty and free of zero units and whose buffer fits a \<^verbatim>\<open>DWORD\<close>; and every
  \<open>REG_BINARY\<close> blob, the empty blob included, whose length fits a \<^verbatim>\<open>DWORD\<close>.
\<close>

theorem round_trip:
  "hKey \<noteq> nullptr \<longrightarrow>
     write_then_read b w hKey valueName ((RegValue_ctor REG_DWORD)\<lparr>m_dword := d\<rparr>) =
       Inr ((RegValue_ctor REG_DWORD)\<lparr>m_dword := d\<rparr>) \<and>
     ((length s + 1) * 2 \<le> DWORD_max \<longrightarrow>
        write_then_read b w hKey valueName ((RegValue_ctor REG_SZ)\<lparr>m_string := s\<rparr>) =
          Inr ((RegValue_ctor REG_SZ)\<lparr>m_string := s\<rparr>) \<and>
        write_then_read b w hKey valueName
          ((RegValue_ctor REG_EXPAND_SZ)\<lparr>m_expandString := s\<rparr>) =
          Inr ((RegValue_ctor REG_EXPAND_SZ)\<lparr>m_expandString := s\<rparr>)) \<and>
     ((\<forall>s \<in> set xs. s \<noteq> [] \<and> 0 \<notin> set s) \<and> multiString_buffer xs = Inr buffer \<and>
      length buffer * 2 \<le> DWORD_max \<longrightarrow>
        write_then_read b w hKey valueName ((RegValue_ctor REG_MULTI_SZ)\<lparr>m_multiString := xs\<rparr>) =
          Inr ((RegValue_ctor REG_MULTI_SZ)\<lparr>m_multiString := xs\<rparr>)) \<and>
     (length dat \<le> DWORD_max \<longrightarrow>
        write_then_read b w hKey valueName ((RegValue_ctor REG_BINARY)\<lparr>m_binary := dat\<rparr>) =
          Inr ((RegValue_ctor REG_BINARY)\<lparr>m_binary := dat\<rparr>))"
  using round_trip_dword [of hKey b w valueName d]
    round_trip_string [of hKey s b w valueName]
    round_trip_expand [of hKey s b w valueName]
    round_trip_multi_general [of hKey xs "[]" buffer b w valueName]
    round_trip_binary [of hKey dat b w valueName]
  by simp

text \<open>
  The values 0 and \<open>2\<^sup>3\<^sup>2 - 1\<close>, the empty string, \<^verbatim>\<open>"Hello W"\<close>, \<^verbatim>\<open>"%W%"\<close>, the empty
  list, \<^verbatim>\<open>["Ciao", "Hi", "Connie"]\<close>, the empty blob and the blob \<^verbatim>\<open>22 33 44\<close>.
\<close>

theorem round_trip_witness:
  "write_then_read Win64 empty_world 1 [86] ((RegValue_ctor REG_DWORD)\<lparr>m_dword := 0\<rparr>) =
     Inr ((RegValue_ctor REG_DWORD)\<lparr>m_dword := 0\<rparr>) \<and>
   write_then_read Win64 empty_world 1 [86] ((RegValue_ctor REG_DWORD)\<lparr>m_dword := 4294967295\<rparr>) =
     Inr ((RegValue_ctor REG_DWORD)\<lparr>m_dword := 4294967295\<rparr>) \<and>
   write_then_read Win64 empty_world 1 [86] ((RegValue_ctor REG_SZ)\<lparr>m_string := []\<rparr>) =
     Inr ((RegValue_ctor REG_SZ)\<lparr>m_string := []\<rparr>) \<and>
   write_then_read Win64 empty_world 1 [86]
     ((RegValue_ctor REG_SZ)\<lparr>m_string := [72, 101, 108, 108, 111, 32, 87]\<rparr>) =
     Inr ((RegValue_ctor REG_SZ)\<lparr>m_string := [72, 101, 108, 108, 111, 32, 87]\<rparr>) \<and>
   write_then_read Win64 empty_world 1 [86]
     ((RegValue_ctor REG_EXPAND_SZ)\<lparr>m_expandString := [37, 87, 37]\<rparr>) =
     Inr ((RegValue_ctor REG_EXPAND_SZ)\<lparr>m_expandString := [37, 87, 37]\<rparr>) \<and>
   write_then_read Win64 empty_world 1 [86] ((RegValue_ctor REG_MULTI_SZ)\<lparr>m_multiString := []\<rparr>) =
     Inr ((RegValue_ctor REG_MULTI_SZ)\<lparr>m_multiString := []\<rparr>) \<and>
   write_then_read Win64 empty_world 1 [86]
     ((RegValue_ctor REG_MULTI_SZ)
        \<lparr>m_multiString := [[67, 105, 97, 111], [72, 105], [67, 111, 110, 110, 105, 101]]\<rparr>) =
     Inr ((RegValue_ctor REG_MULTI_SZ)
        \<lparr>m_multiString := [[67, 105, 97, 111], [72, 105], [67, 111, 110, 110, 105, 101]]\<rparr>) \<and>
   write_then_read Win64 empty_world 1 [86] ((RegValue_ctor REG_BINARY)\<lparr>m_binary := []\<rparr>) =
     Inr ((RegValue_ctor REG_BINARY)\<lparr>m_binary := []\<rparr>) \<and>
   write_then_read Win64 empty_world 1 [86]
     ((RegValue_ctor REG_BINARY)\<lparr>m_binary := [34, 51, 68]\<rparr>) =
     Inr ((RegValue_ctor REG_BINARY)\<lparr>m_binary := [34, 51, 68]\<rparr>)"
  using round_trip [of 1 Win64 empty_world "[86]" 0 "[]" "[]" "[0, 0]" "[]"]
    round_trip [of 1 Win64 empty_world "[86]" 4294967295 "[72, 101, 108, 108, 111, 32, 87]"
      "[[67, 105, 97, 111], [72, 105], [67, 111, 110, 110, 105, 101]]"
      "[67, 105, 97, 111, 0, 72, 105, 0, 67, 111, 110, 110, 105, 101, 0, 0]" "[34, 51, 68]"]
    round_trip [of 1 Win64 empty_world "[86]" 0 "[37, 87, 37]" "[]" "[0, 0]" "[34, 51, 68]"]
  by (simp add: multiString_buffer_eq c_str_def nullptr_def DWORD_max_eq)

subsection \<open>Zero-length entries\<close>

text \<open>
  For a non-empty string entry whose last unit is not zero, the terminated and the
  unterminated form are read as the same string.
\<close>

lemma string_terminator_tolerance:
  assumes "hKey \<noteq> nullptr" "us \<noteq> []" "last us \<noteq> 0" "2 * (length us + 1) \<le> DWORD_max"
    "entries w1 hKey valueName = Some (REG_SZ, bytes_of_wchars (us @ [0]))"
    "entries w2 hKey valueName = Some (REG_SZ, bytes_of_wchars us)"
  shows "fst (QueryValue w1 hKey valueName) = Inr ((RegValue_ctor REG_SZ)\<lparr>m_string := us\<rparr>)"
    and "fst (QueryValue w2 hKey valueName) = Inr ((RegValue_ctor REG_SZ)\<lparr>m_string := us\<rparr>)"
proof -
  show "fst (QueryValue w1 hKey valueName) = Inr ((RegValue_ctor REG_SZ)\<lparr>m_string := us\<rparr>)"
    using QueryValue_string [OF assms(1,5)] assms(4) by simp
  show "fst (QueryValue w2 hKey valueName) = Inr ((RegValue_ctor REG_SZ)\<lparr>m_string := us\<rparr>)"
    using QueryValue_string [OF assms(1,6,2)] assms(3,4) by simp
qed

lemmas eval_defs =
  QueryValue_def RegQueryValueEx_info_def RegQueryValueEx_data_def called_def single_entry_def
  ReadValueStringInternal_def ReadValueExpandStringInternal_def ReadValueMultiStringInternal_def
  resize_def c_str_def wstring_at_def vector_at_def assign_def String_ref_def
  ExpandString_ref_def MultiString_ref_def RegValue_ctor_def RegValue_default_def
  nullptr_def REG_defs ERROR_defs Let_def

text \<open>
  C3 fails on the code. For a \<open>REG_SZ\<close> or \<open>REG_EXPAND_SZ\<close> entry of zero bytes the string
  is resized to zero units, and the subscript \<open>stringBufferLenInWchars - 1\<close> wraps around to
  \<open>2\<^sup>3\<^sup>2 - 1\<close>: the terminator check reads outside the string.
\<close>

theorem zero_length_string_read:
  "fst (QueryValue (single_entry 1 [86] REG_SZ []) 1 [86]) = Inl out_of_bounds \<and>
   fst (QueryValue (single_entry 1 [86] REG_EXPAND_SZ []) 1 [86]) = Inl out_of_bounds"
  by (simp add: eval_defs unsigned_minus_1_eq_mask mask_eq_exp_minus_1)

text \<open>
  C4 fails on the code in its first half. For a \<open>REG_MULTI_SZ\<close> entry of zero bytes the
  buffer is a vector of zero units, and the loop condition reads through its data pointer.
  An entry of two zero units is read as the list of zero strings.
\<close>

theorem zero_length_multi_string_read:
  "fst (QueryValue (single_entry 1 [86] REG_MULTI_SZ []) 1 [86]) = Inl out_of_bounds \<and>
   fst (QueryValue (single_entry 1 [86] REG_MULTI_SZ [0, 0, 0, 0]) 1 [86]) =
     Inr ((RegValue_ctor REG_MULTI_SZ)\<lparr>m_multiString := []\<rparr>)"
  by (simp add: eval_defs)

text \<open>
  C5 fails on the code for the empty character sequence: with its terminator it is read as
  the empty string, without it the entry has zero bytes and the read is outside the
  string, as for C3.
\<close>

theorem unterminated_empty_string_read:
  "fst (QueryValue (single_entry 1 [86] REG_SZ [0, 0]) 1 [86]) =
     Inr ((RegValue_ctor REG_SZ)\<lparr>m_string := []\<rparr>) \<and>
   fst (QueryValue (single_entry 1 [86] REG_SZ []) 1 [86]) = Inl out_of_bounds"
  by (simp add: eval_defs unsigned_minus_1_eq_mask mask_eq_exp_minus_1)

end
